theory Spec2Isabelle
  imports Complex_Main
begin

section \<open>Numbers\<close>

text \<open>
  Python floats are modelled as exact reals. The two infinities that the code writes out
  (\<^verbatim>\<open>float('inf')\<close>, \<^verbatim>\<open>float('-inf')\<close>) are constructors of their own, and a NaN
  of an indicator series (the warm-up bars of a rolling window) is \<open>None\<close>: every
  comparison with it is false, as in Python.
\<close>

datatype pyfloat = NegInf | Fin real | PosInf

fun fgt :: "pyfloat \<Rightarrow> pyfloat \<Rightarrow> bool" where
  "fgt (Fin a) (Fin b) = (a > b)"
| "fgt PosInf PosInf = False"
| "fgt PosInf _ = True"
| "fgt _ PosInf = False"
| "fgt NegInf _ = False"
| "fgt _ NegInf = True"

definition fge :: "pyfloat \<Rightarrow> pyfloat \<Rightarrow> bool" where
  "fge a b = (fgt a b \<or> a = b)"

fun fneg :: "pyfloat \<Rightarrow> pyfloat" where
  "fneg NegInf = PosInf"
| "fneg (Fin a) = Fin (- a)"
| "fneg PosInf = NegInf"

definition nan_lt :: "real option \<Rightarrow> real option \<Rightarrow> bool" where
  "nan_lt a b = (case (a, b) of (Some x, Some y) \<Rightarrow> x < y | _ \<Rightarrow> False)"

definition nan_le :: "real option \<Rightarrow> real option \<Rightarrow> bool" where
  "nan_le a b = (case (a, b) of (Some x, Some y) \<Rightarrow> x \<le> y | _ \<Rightarrow> False)"

definition nan_gt :: "real option \<Rightarrow> real option \<Rightarrow> bool" where
  "nan_gt a b = nan_lt b a"

definition nan_ge :: "real option \<Rightarrow> real option \<Rightarrow> bool" where
  "nan_ge a b = nan_le b a"

datatype py_error = ZeroDivisionError | IndexError | ValueError | KeyError | AttributeError

section \<open>Price bars, positions, trades\<close>

text \<open>
  A row of the data frame: its index entry (the bar's time, in hours) and its close.
  The other columns are never read by the strategies.
\<close>

record bar =
  timestamp :: real
  close :: real

record position =
  entry_price :: real
  entry_time :: real
  quantity :: real
  stop_loss :: real
  take_profit :: real

record trade =
  t_entry_time :: real
  t_exit_time :: real
  t_entry_price :: real
  t_exit_price :: real
  t_quantity :: real
  pnl :: real
  pnl_pct :: real
  exit_reason :: string
  duration_hours :: real

text \<open>The local variables of a strategy loop.\<close>

record loop_state =
  trades :: "trade list"
  equity_curve :: "real list"
  current_capital :: real
  pos :: "position option"

definition init_state :: "real \<Rightarrow> loop_state" where
  "init_state initial_capital =
     \<lparr>trades = [], equity_curve = [initial_capital],
      current_capital = initial_capital, pos = None\<rparr>"

text \<open>
  The indicator libraries (\<^verbatim>\<open>ta\<close>, \<^verbatim>\<open>pandas\<close>) are not part of the repository: they are
  a parameter. Each indicator maps the close column and its window parameters to a series
  over the same index, read at the bars \<open>0 .. len(df) - 1\<close> only, or raises (\<open>Inl\<close>), as
  pandas does on a window that is not an integer.
\<close>

type_synonym series = "nat \<Rightarrow> real option"

record indicators =
  rsi_ind :: "real list \<Rightarrow> real \<Rightarrow> py_error + series"
  macd_ind :: "real list \<Rightarrow> real \<Rightarrow> real \<Rightarrow> real \<Rightarrow> py_error + series"
  macd_signal_ind :: "real list \<Rightarrow> real \<Rightarrow> real \<Rightarrow> real \<Rightarrow> py_error + series"
  rolling_mean_ind :: "real list \<Rightarrow> real \<Rightarrow> py_error + series"
  bb_hband_ind :: "real list \<Rightarrow> real \<Rightarrow> real \<Rightarrow> py_error + series"
  bb_lband_ind :: "real list \<Rightarrow> real \<Rightarrow> real \<Rightarrow> py_error + series"
  bb_mavg_ind :: "real list \<Rightarrow> real \<Rightarrow> real \<Rightarrow> py_error + series"

text \<open>
  Opening a long position with 95% of the capital, and closing the open one: the two
  blocks every strategy repeats word for word.
\<close>

definition open_position :: "(string \<Rightarrow> real) \<Rightarrow> real \<Rightarrow> real \<Rightarrow> loop_state \<Rightarrow> loop_state" where
  "open_position params current_price ts s =
     s\<lparr>pos := Some \<lparr>entry_price = current_price, entry_time = ts,
                     quantity = current_capital s * 0.95 / current_price,
                     stop_loss = current_price * (1 - params ''stop_loss''),
                     take_profit = current_price * (1 + params ''take_profit'')\<rparr>\<rparr>"

definition close_position :: "position \<Rightarrow> real \<Rightarrow> real \<Rightarrow> string \<Rightarrow> loop_state \<Rightarrow> loop_state" where
  "close_position p current_price ts reason s =
     (let pnl = (current_price - entry_price p) * quantity p in
      s\<lparr>current_capital := current_capital s + pnl,
        trades := trades s @
          [\<lparr>t_entry_time = entry_time p, t_exit_time = ts,
            t_entry_price = entry_price p, t_exit_price = current_price,
            t_quantity = quantity p, pnl = pnl,
            pnl_pct = (pnl / (entry_price p * quantity p)) * 100,
            exit_reason = reason,
            duration_hours = ts - entry_time p\<rparr>],
        pos := None\<rparr>)"

definition append_equity :: "loop_state \<Rightarrow> loop_state" where
  "append_equity s = s\<lparr>equity_curve := equity_curve s @ [current_capital s]\<rparr>"

text \<open>\<^verbatim>\<open>for i in range(1, len(df))\<close> with the loop body \<open>body i\<close>.\<close>

definition for_bars :: "(nat \<Rightarrow> loop_state \<Rightarrow> loop_state) \<Rightarrow> bar list \<Rightarrow> real
    \<Rightarrow> trade list \<times> real list" where
  "for_bars body df initial_capital =
     (let s = fold body [1..<length df] (init_state initial_capital)
      in (trades s, equity_curve s))"

subsection \<open>RSI strategy\<close>

definition rsi_body :: "series \<Rightarrow> (string \<Rightarrow> real) \<Rightarrow> bar list \<Rightarrow> nat \<Rightarrow> loop_state \<Rightarrow> loop_state" where
  "rsi_body rsi params df i s =
     (let current_price = close (df ! i);
          current_rsi = rsi i;
          ts = timestamp (df ! i)
      in append_equity
        (if pos s = None \<and> nan_lt current_rsi (Some (params ''oversold_level''))
         then open_position params current_price ts s
         else (case pos s of
            None \<Rightarrow> s
          | Some p \<Rightarrow>
              (let (exit_signal, reason) =
                 (if nan_gt current_rsi (Some (params ''overbought_level''))
                  then (True, ''RSI_OVERBOUGHT'')
                  else if current_price \<le> stop_loss p then (True, ''STOP_LOSS'')
                  else if current_price \<ge> take_profit p then (True, ''TAKE_PROFIT'')
                  else (False, ''''))
               in if exit_signal then close_position p current_price ts reason s else s))))"

definition execute_rsi_strategy :: "indicators \<Rightarrow> bar list \<Rightarrow> (string \<Rightarrow> real) \<Rightarrow> real
    \<Rightarrow> py_error + (trade list \<times> real list)" where
  "execute_rsi_strategy lib df params initial_capital =
     (case rsi_ind lib (map close df) (params ''rsi_period'') of
        Inl e \<Rightarrow> Inl e
      | Inr rsi \<Rightarrow> Inr (for_bars (rsi_body rsi params df) df initial_capital))"

subsection \<open>MACD strategy\<close>

definition macd_body :: "series \<Rightarrow> series \<Rightarrow> (string \<Rightarrow> real) \<Rightarrow> bar list \<Rightarrow> nat
    \<Rightarrow> loop_state \<Rightarrow> loop_state" where
  "macd_body macd_line macd_signal params df i s =
     (let current_price = close (df ! i);
          current_macd = macd_line i;
          current_signal = macd_signal i;
          prev_macd = macd_line (i - 1);
          prev_signal = macd_signal (i - 1);
          ts = timestamp (df ! i)
      in append_equity
        (if pos s = None \<and> nan_le prev_macd prev_signal \<and> nan_gt current_macd current_signal
         then open_position params current_price ts s
         else (case pos s of
            None \<Rightarrow> s
          | Some p \<Rightarrow>
              if nan_ge prev_macd prev_signal \<and> nan_lt current_macd current_signal
              then close_position p current_price ts ''MACD_SIGNAL'' s
              else if current_price \<le> stop_loss p
              then close_position p current_price ts ''STOP_LOSS'' s
              else if current_price \<ge> take_profit p
              then close_position p current_price ts ''TAKE_PROFIT'' s
              else s)))"

definition execute_macd_strategy :: "indicators \<Rightarrow> bar list \<Rightarrow> (string \<Rightarrow> real) \<Rightarrow> real
    \<Rightarrow> py_error + (trade list \<times> real list)" where
  "execute_macd_strategy lib df params initial_capital =
     (case macd_ind lib (map close df) (params ''fast_period'')
             (params ''slow_period'') (params ''signal_period'') of
        Inl e \<Rightarrow> Inl e
      | Inr macd_line \<Rightarrow>
         (case macd_signal_ind lib (map close df) (params ''fast_period'')
                 (params ''slow_period'') (params ''signal_period'') of
            Inl e \<Rightarrow> Inl e
          | Inr macd_signal \<Rightarrow>
              Inr (for_bars (macd_body macd_line macd_signal params df) df initial_capital)))"

subsection \<open>Moving-average crossover strategy\<close>

definition ma_body :: "series \<Rightarrow> series \<Rightarrow> (string \<Rightarrow> real) \<Rightarrow> bar list \<Rightarrow> nat
    \<Rightarrow> loop_state \<Rightarrow> loop_state" where
  "ma_body fast_ma slow_ma params df i s =
     (let current_price = close (df ! i);
          current_fast_ma = fast_ma i;
          current_slow_ma = slow_ma i;
          prev_fast_ma = fast_ma (i - 1);
          prev_slow_ma = slow_ma (i - 1);
          ts = timestamp (df ! i)
      in append_equity
        (if pos s = None \<and> nan_le prev_fast_ma prev_slow_ma
              \<and> nan_gt current_fast_ma current_slow_ma
         then open_position params current_price ts s
         else (case pos s of
            None \<Rightarrow> s
          | Some p \<Rightarrow>
              if nan_ge prev_fast_ma prev_slow_ma \<and> nan_lt current_fast_ma current_slow_ma
              then close_position p current_price ts ''MA_CROSSOVER'' s
              else s)))"

definition execute_ma_crossover_strategy :: "indicators \<Rightarrow> bar list \<Rightarrow> (string \<Rightarrow> real)
    \<Rightarrow> real \<Rightarrow> py_error + (trade list \<times> real list)" where
  "execute_ma_crossover_strategy lib df params initial_capital =
     (case rolling_mean_ind lib (map close df) (params ''fast_ma'') of
        Inl e \<Rightarrow> Inl e
      | Inr fast_ma \<Rightarrow>
         (case rolling_mean_ind lib (map close df) (params ''slow_ma'') of
            Inl e \<Rightarrow> Inl e
          | Inr slow_ma \<Rightarrow>
              Inr (for_bars (ma_body fast_ma slow_ma params df) df initial_capital)))"

subsection \<open>Bollinger-bands strategy\<close>

definition bollinger_body :: "series \<Rightarrow> series \<Rightarrow> (string \<Rightarrow> real) \<Rightarrow> bar list \<Rightarrow> nat
    \<Rightarrow> loop_state \<Rightarrow> loop_state" where
  "bollinger_body bb_lower bb_middle params df i s =
     (let current_price = close (df ! i);
          current_lower = bb_lower i;
          current_middle = bb_middle i;
          ts = timestamp (df ! i)
      in append_equity
        (if pos s = None \<and> nan_le (Some current_price) current_lower
         then open_position params current_price ts s
         else (case pos s of
            None \<Rightarrow> s
          | Some p \<Rightarrow>
              if nan_ge (Some current_price) current_middle
              then close_position p current_price ts ''BB_MIDDLE'' s
              else s)))"

definition execute_bollinger_strategy :: "indicators \<Rightarrow> bar list \<Rightarrow> (string \<Rightarrow> real)
    \<Rightarrow> real \<Rightarrow> py_error + (trade list \<times> real list)" where
  "execute_bollinger_strategy lib df params initial_capital =
     (case bb_hband_ind lib (map close df) (params ''period'') (params ''std_dev'') of
        Inl e \<Rightarrow> Inl e
      | Inr bb_upper \<Rightarrow>
         (case bb_lband_ind lib (map close df) (params ''period'') (params ''std_dev'') of
            Inl e \<Rightarrow> Inl e
          | Inr bb_lower \<Rightarrow>
             (case bb_mavg_ind lib (map close df) (params ''period'') (params ''std_dev'') of
                Inl e \<Rightarrow> Inl e
              | Inr bb_middle \<Rightarrow>
                  Inr (for_bars (bollinger_body bb_lower bb_middle params df) df
                         initial_capital))))"

subsection \<open>The strategy registry and the dispatch\<close>

record param_config =
  default :: real
  pmin :: real
  pmax :: real

definition cfg :: "real \<Rightarrow> real \<Rightarrow> real \<Rightarrow> param_config" where
  "cfg d lo hi = \<lparr>default = d, pmin = lo, pmax = hi\<rparr>"

definition load_strategies :: "(string \<times> (string \<times> param_config) list) list" where
  "load_strategies =
     [(''rsi_strategy'',
        [(''rsi_period'', cfg 14 5 50),
         (''oversold_level'', cfg 30 20 40),
         (''overbought_level'', cfg 70 60 80),
         (''stop_loss'', cfg 0.02 0.01 0.05),
         (''take_profit'', cfg 0.04 0.02 0.10)]),
      (''macd_strategy'',
        [(''fast_period'', cfg 12 8 20),
         (''slow_period'', cfg 26 20 35),
         (''signal_period'', cfg 9 5 15),
         (''stop_loss'', cfg 0.025 0.01 0.05),
         (''take_profit'', cfg 0.05 0.02 0.10)]),
      (''ma_crossover'',
        [(''fast_ma'', cfg 20 10 50),
         (''slow_ma'', cfg 50 30 100),
         (''stop_loss'', cfg 0.03 0.01 0.05),
         (''take_profit'', cfg 0.06 0.03 0.12)]),
      (''bollinger_bands'',
        [(''period'', cfg 20 10 30),
         (''std_dev'', cfg 2.0 1.5 2.5),
         (''stop_loss'', cfg 0.02 0.01 0.04),
         (''take_profit'', cfg 0.04 0.02 0.08)])]"

text \<open>
  The \<^verbatim>\<open>try\<close> block of \<^verbatim>\<open>_execute_strategy\<close>: the parameters the caller gave, completed
  with the registry's defaults, then the strategy of that name. It raises on a name that
  is not in the registry (KeyError), on \<^verbatim>\<open>parameters\<close> being \<^verbatim>\<open>None\<close> (AttributeError),
  and whenever the strategy itself raises.
\<close>

definition execute_strategy_try :: "indicators \<Rightarrow> string \<Rightarrow> bar list
    \<Rightarrow> (string \<rightharpoonup> real) option \<Rightarrow> real \<Rightarrow> py_error + (trade list \<times> real list)" where
  "execute_strategy_try lib strategy_name df parameters initial_capital =
     (case map_of load_strategies strategy_name of
        None \<Rightarrow> Inl KeyError
      | Some strategy_config \<Rightarrow>
         (case parameters of
            None \<Rightarrow> Inl AttributeError
          | Some given \<Rightarrow>
             (let params = (\<lambda>param_name.
                    case given param_name of
                      Some v \<Rightarrow> v
                    | None \<Rightarrow> (case map_of strategy_config param_name of
                                 Some c \<Rightarrow> default c | None \<Rightarrow> 0))
              in if strategy_name = ''rsi_strategy''
                 then execute_rsi_strategy lib df params initial_capital
                 else if strategy_name = ''macd_strategy''
                 then execute_macd_strategy lib df params initial_capital
                 else if strategy_name = ''ma_crossover''
                 then execute_ma_crossover_strategy lib df params initial_capital
                 else if strategy_name = ''bollinger_bands''
                 then execute_bollinger_strategy lib df params initial_capital
                 else Inl ValueError)))"

text \<open>
  \<^verbatim>\<open>_execute_strategy\<close>: the \<^verbatim>\<open>except Exception\<close> handler answers every raise with no
  trades and the seed equity curve.
\<close>

definition execute_strategy :: "indicators \<Rightarrow> string \<Rightarrow> bar list \<Rightarrow> (string \<rightharpoonup> real) option
    \<Rightarrow> real \<Rightarrow> trade list \<times> real list" where
  "execute_strategy lib strategy_name df parameters initial_capital =
     (case execute_strategy_try lib strategy_name df parameters initial_capital of
        Inl e \<Rightarrow> ([], [initial_capital])
      | Inr r \<Rightarrow> r)"

section \<open>Metrics\<close>

text \<open>
  The metrics dictionary, in key order. \<^verbatim>\<open>_calculate_metrics\<close> catches its own
  exceptions and answers \<^verbatim>\<open>{"error": ...}\<close>, which is \<open>MetricsError\<close> here. Where the
  code divides by zero, Python raises on its own floats and numpy answers nan or inf on
  its scalars; the model answers \<open>MetricsError ZeroDivisionError\<close> for both, and the
  properties below say nothing about those inputs.
\<close>

datatype metrics = MetricsError py_error | Metrics "(string \<times> pyfloat) list"

text \<open>\<^verbatim>\<open>metrics.get(key, d)\<close>\<close>

definition metrics_get :: "metrics \<Rightarrow> string \<Rightarrow> pyfloat \<Rightarrow> pyfloat" where
  "metrics_get m key d =
     (case m of
        MetricsError _ \<Rightarrow> d
      | Metrics kv \<Rightarrow> (case map_of kv key of None \<Rightarrow> d | Some v \<Rightarrow> v))"

definition np_mean :: "real list \<Rightarrow> real" where
  "np_mean xs = sum_list xs / real (length xs)"

definition np_std :: "real list \<Rightarrow> real" where
  "np_std xs = sqrt (np_mean (map (\<lambda>x. (x - np_mean xs)\<^sup>2) xs))"

text \<open>\<^verbatim>\<open>np.diff(equity_curve) / equity_curve[:-1]\<close>\<close>

definition period_returns :: "real list \<Rightarrow> real list" where
  "period_returns ec = map (\<lambda>(a, b). (b - a) / a) (zip (butlast ec) (tl ec))"

text \<open>
  A zero in \<^verbatim>\<open>equity_curve[:-1]\<close> puts an inf or a nan among the returns; their
  standard deviation is then nan, the test \<^verbatim>\<open>np.std(returns) > 0\<close> is false and the
  ratio is 0.
\<close>

definition sharpe_ratio_of :: "real list \<Rightarrow> real" where
  "sharpe_ratio_of ec =
     (if length ec > 1 then
        (if 0 \<in> set (butlast ec) then 0
         else (let returns = period_returns ec in
               if np_std returns > 0
               then np_mean returns / np_std returns * sqrt 252 else 0))
      else 0)"

fun drawdown_loop :: "real \<Rightarrow> real \<Rightarrow> real list \<Rightarrow> py_error + real" where
  "drawdown_loop peak max_drawdown [] = Inr max_drawdown"
| "drawdown_loop peak max_drawdown (v # vs) =
     (let peak' = (if v > peak then v else peak) in
      if peak' = 0 then Inl ZeroDivisionError
      else drawdown_loop peak' (max max_drawdown ((peak' - v) / peak')) vs)"

definition calculate_metrics :: "trade list \<Rightarrow> real list \<Rightarrow> real \<Rightarrow> metrics" where
  "calculate_metrics ts ec initial_capital =
     (if ts = [] then
        Metrics
          [(''total_trades'', Fin 0), (''total_return'', Fin 0), (''total_return_pct'', Fin 0),
           (''win_rate'', Fin 0), (''profit_factor'', Fin 0), (''sharpe_ratio'', Fin 0),
           (''max_drawdown'', Fin 0), (''average_trade'', Fin 0), (''largest_win'', Fin 0),
           (''largest_loss'', Fin 0)]
      else
        (let total_trades = length ts;
             winning_trades = filter (\<lambda>t. pnl t > 0) ts;
             losing_trades = filter (\<lambda>t. pnl t < 0) ts;
             total_pnl = sum_list (map pnl ts);
             final_capital = (if ec \<noteq> [] then last ec else initial_capital)
         in if initial_capital = 0 then MetricsError ZeroDivisionError
            else
             (let total_return_pct = ((final_capital - initial_capital) / initial_capital) * 100;
                  win_rate = real (length winning_trades) / real total_trades;
                  gross_profit = sum_list (map pnl winning_trades);
                  gross_loss = \<bar>sum_list (map pnl losing_trades)\<bar>;
                  profit_factor =
                    (if gross_loss > 0 then Fin (gross_profit / gross_loss) else PosInf);
                  sharpe_ratio = sharpe_ratio_of ec
              in case ec of
                   [] \<Rightarrow> MetricsError IndexError
                 | peak # _ \<Rightarrow>
                    (case drawdown_loop peak 0 ec of
                       Inl e \<Rightarrow> MetricsError e
                     | Inr max_drawdown \<Rightarrow>
                        Metrics
                          [(''total_trades'', Fin (real total_trades)),
                           (''winning_trades'', Fin (real (length winning_trades))),
                           (''losing_trades'', Fin (real (length losing_trades))),
                           (''total_return'', Fin total_pnl),
                           (''total_return_pct'', Fin total_return_pct),
                           (''win_rate'', Fin win_rate),
                           (''profit_factor'', profit_factor),
                           (''sharpe_ratio'', Fin sharpe_ratio),
                           (''max_drawdown'', Fin max_drawdown),
                           (''average_trade'', Fin (total_pnl / real total_trades)),
                           (''average_win'',
                              Fin (if winning_trades \<noteq> [] then np_mean (map pnl winning_trades) else 0)),
                           (''average_loss'',
                              Fin (if losing_trades \<noteq> [] then np_mean (map pnl losing_trades) else 0)),
                           (''largest_win'', Fin (Max (set (map pnl ts)))),
                           (''largest_loss'', Fin (Min (set (map pnl ts)))),
                           (''final_capital'', Fin final_capital),
                           (''total_duration_hours'', Fin (sum_list (map duration_hours ts))),
                           (''average_duration_hours'', Fin (np_mean (map duration_hours ts)))]))))"

section \<open>The backtest runner\<close>

text \<open>
  The market-data collaborator is a parameter: \<open>market_data env symbol start end\<close> is the data frame
  \<^verbatim>\<open>_get_historical_data\<close> returns, empty when the source has no data or fails. Dates are
  day numbers.
\<close>

record services =
  indicator_lib :: indicators
  market_data :: "string \<Rightarrow> int \<Rightarrow> int \<Rightarrow> bar list"

record backtest_params =
  bp_strategy_name :: string
  bp_symbol :: string
  bp_start_date :: int
  bp_end_date :: int
  bp_initial_capital :: real
  bp_parameters :: "(string \<times> real) list option"

record backtest_ok =
  r_final_capital :: real
  r_metrics :: metrics
  r_trades :: "trade list"
  r_equity_curve :: "real list"
  r_data_points :: nat

datatype backtest_result = Failure string | Success backtest_ok

text \<open>The body of the \<^verbatim>\<open>try\<close> block of \<^verbatim>\<open>run_backtest\<close>: \<open>Inl\<close> is a raised ValueError.\<close>

definition run_backtest_try :: "services \<Rightarrow> backtest_params \<Rightarrow> string + backtest_ok" where
  "run_backtest_try env bp =
     (if map_of load_strategies (bp_strategy_name bp) = None
      then Inl (''Estrategia no encontrada: '' @ bp_strategy_name bp)
      else
       (let df = market_data env (bp_symbol bp) (bp_start_date bp) (bp_end_date bp) in
        if df = []
        then Inl (''No se pudieron obtener datos historicos para '' @ bp_symbol bp)
        else
         (let (ts, ec) = execute_strategy (indicator_lib env) (bp_strategy_name bp) df
                           (map_option map_of (bp_parameters bp)) (bp_initial_capital bp);
              m = calculate_metrics ts ec (bp_initial_capital bp)
          in Inr \<lparr>r_final_capital = (if ec \<noteq> [] then last ec else bp_initial_capital bp),
                  r_metrics = m, r_trades = ts, r_equity_curve = ec,
                  r_data_points = length df\<rparr>)))"

text \<open>\<^verbatim>\<open>run_backtest\<close>: the \<^verbatim>\<open>except Exception\<close> handler turns every raise into a failure record.\<close>

definition run_backtest :: "services \<Rightarrow> backtest_params \<Rightarrow> backtest_result" where
  "run_backtest env bp =
     (case run_backtest_try env bp of
        Inl e \<Rightarrow> Failure e
      | Inr r \<Rightarrow> Success r)"

text \<open>
  What every search engine passes to \<^verbatim>\<open>run_backtest\<close>: its own strategy, symbol and dates,
  the candidate parameters, and no \<^verbatim>\<open>initial_capital\<close> (so the default 1000.0).
\<close>

record search_task =
  st_strategy_name :: string
  st_symbol :: string
  st_start_date :: int
  st_end_date :: int
  st_objective :: string

definition backtest_call :: "search_task \<Rightarrow> (string \<times> real) list option \<Rightarrow> backtest_params" where
  "backtest_call task ps =
     \<lparr>bp_strategy_name = st_strategy_name task, bp_symbol = st_symbol task,
      bp_start_date = st_start_date task, bp_end_date = st_end_date task,
      bp_initial_capital = 1000, bp_parameters = ps\<rparr>"

text \<open>
  The optimizer reaches the runner through its collaborator
  \<^verbatim>\<open>self.backtesting_service\<close>. To account for the calls that grid search and the
  walk-forward analysis make, these two are modelled against any such service: a call
  takes the state of the service and returns the answer and the next state.
\<close>

type_synonym 'w service = "backtest_params \<Rightarrow> 'w \<Rightarrow> backtest_result \<times> 'w"

section \<open>Parameter domains and grid search\<close>

text \<open>
  A declared domain: a dictionary with a type tag (\<^verbatim>\<open>int\<close>, \<^verbatim>\<open>float\<close>, \<^verbatim>\<open>categorical\<close>,
  anything else) or a plain pair \<^verbatim>\<open>[lo, hi]\<close>. Parameter values are numbers; an int is
  its real value. \<^verbatim>\<open>parameter_ranges\<close> is a dictionary in insertion order.
\<close>

datatype param_range =
    IntRange int int "int option"
  | FloatRange real real "real option"
  | Categorical "real list"
  | OtherDict "real option"
  | Pair real real

type_synonym individual = "(string \<times> real) list"

text \<open>\<^verbatim>\<open>range(start, stop, step)\<close>; a zero step raises ValueError.\<close>

definition py_range :: "int \<Rightarrow> int \<Rightarrow> int \<Rightarrow> py_error + int list" where
  "py_range start stop step =
     (if step = 0 then Inl ValueError
      else if step > 0
      then Inr (map (\<lambda>k. start + int k * step) [0..<nat ((stop - start + step - 1) div step)])
      else Inr (map (\<lambda>k. start + int k * step) [0..<nat ((start - stop - step - 1) div (- step))]))"

text \<open>
  \<^verbatim>\<open>np.arange(start, stop, step)\<close>: \<open>\<lceil>(stop - start) / step\<rceil>\<close> values from \<open>start\<close> on;
  numpy raises on a zero step.
\<close>

definition np_arange :: "real \<Rightarrow> real \<Rightarrow> real \<Rightarrow> py_error + real list" where
  "np_arange start stop step =
     (if step = 0 then Inl ZeroDivisionError
      else Inr (map (\<lambda>k. start + real k * step) [0..<nat \<lceil>(stop - start) / step\<rceil>]))"

text \<open>\<^verbatim>\<open>np.linspace(lo, hi, 10)\<close>\<close>

definition np_linspace10 :: "real \<Rightarrow> real \<Rightarrow> real list" where
  "np_linspace10 lo hi = map (\<lambda>k. lo + real k * ((hi - lo) / 9)) [0..<10]"

definition grid_values :: "param_range \<Rightarrow> py_error + real list" where
  "grid_values r =
     (case r of
        IntRange lo hi st \<Rightarrow>
          (case py_range lo (hi + 1) (case st of None \<Rightarrow> 1 | Some k \<Rightarrow> k) of
             Inl e \<Rightarrow> Inl e
           | Inr vs \<Rightarrow> Inr (map real_of_int vs))
      | FloatRange lo hi st \<Rightarrow>
          (let step = (case st of None \<Rightarrow> (hi - lo) / 10 | Some k \<Rightarrow> k)
           in np_arange lo (hi + step) step)
      | Categorical choices \<Rightarrow> Inr choices
      | OtherDict d \<Rightarrow> Inr [case d of None \<Rightarrow> 1 | Some v \<Rightarrow> v]
      | Pair lo hi \<Rightarrow> Inr (np_linspace10 lo hi))"

fun all_values :: "(string \<times> param_range) list \<Rightarrow> py_error + real list list" where
  "all_values [] = Inr []"
| "all_values ((name, r) # rest) =
     (case grid_values r of
        Inl e \<Rightarrow> Inl e
      | Inr vs \<Rightarrow> (case all_values rest of Inl e \<Rightarrow> Inl e | Inr vss \<Rightarrow> Inr (vs # vss)))"

text \<open>\<^verbatim>\<open>itertools.product(*param_values)\<close>: the last component varies fastest.\<close>

fun itertools_product :: "'a list list \<Rightarrow> 'a list list" where
  "itertools_product [] = [[]]"
| "itertools_product (xs # xss) =
     concat (map (\<lambda>x. map (\<lambda>rest. x # rest) (itertools_product xss)) xs)"

definition generate_parameter_combinations ::
    "(string \<times> param_range) list \<Rightarrow> py_error + individual list" where
  "generate_parameter_combinations parameter_ranges =
     (let param_names = map fst parameter_ranges in
      case all_values parameter_ranges of
        Inl e \<Rightarrow> Inl e
      | Inr param_values \<Rightarrow> Inr (map (zip param_names) (itertools_product param_values)))"

text \<open>
  The search loop of \<^verbatim>\<open>_parameter_sweep\<close>: its variables, and the state of the service.
\<close>

record sweep_state =
  results :: "(individual \<times> pyfloat \<times> metrics) list"
  best_params :: "individual option"
  best_value :: pyfloat

definition sweep_body :: "'w service \<Rightarrow> search_task \<Rightarrow> individual \<Rightarrow> sweep_state \<times> 'w
    \<Rightarrow> sweep_state \<times> 'w" where
  "sweep_body bt task params sw =
     (case sw of (s, w) \<Rightarrow>
       (case bt (backtest_call task (Some params)) w of (backtest_result, w1) \<Rightarrow>
         (case backtest_result of
            Failure _ \<Rightarrow> (s, w1)
          | Success r \<Rightarrow>
             (let m = r_metrics r;
                  v = metrics_get m (st_objective task) (Fin 0);
                  s2 = s\<lparr>results := results s @ [(params, v, m)]\<rparr>
              in if fgt v (best_value s2)
                 then (s2\<lparr>best_value := v, best_params := Some params\<rparr>, w1)
                 else (s2, w1)))))"

record sweep_result =
  sw_state :: sweep_state
  sw_total_combinations :: nat
  sw_final_backtest :: backtest_result

definition parameter_sweep :: "'w service \<Rightarrow> search_task \<Rightarrow> (string \<times> param_range) list \<Rightarrow> 'w
    \<Rightarrow> py_error + (sweep_result \<times> 'w)" where
  "parameter_sweep bt task parameter_ranges w =
     (case generate_parameter_combinations parameter_ranges of
        Inl e \<Rightarrow> Inl e
      | Inr all_combinations \<Rightarrow>
         (let param_combinations =
                (if length all_combinations > 1000 then take 1000 all_combinations
                 else all_combinations)
          in case fold (sweep_body bt task) param_combinations
                    (\<lparr>results = [], best_params = None, best_value = NegInf\<rparr>, w) of
               (s, w1) \<Rightarrow>
                 (case bt (backtest_call task (best_params s)) w1 of
                    (final_backtest, w2) \<Rightarrow>
                      Inr (\<lparr>sw_state = s,
                            sw_total_combinations = length param_combinations,
                            sw_final_backtest = final_backtest\<rparr>, w2))))"

section \<open>Sequential (Bayesian) search\<close>

text \<open>
  Optuna is not part of the repository. Its sampler is a parameter: what
  \<^verbatim>\<open>trial.suggest_*\<close> answers, given the trials told to the study so far and the
  parameters already suggested in this trial, or that it raises (\<open>Inl\<close>).
\<close>

type_synonym study = "(individual \<times> pyfloat) list"

record optuna =
  suggest_int :: "study \<Rightarrow> individual \<Rightarrow> string \<Rightarrow> int \<Rightarrow> int \<Rightarrow> py_error + int"
  suggest_float :: "study \<Rightarrow> individual \<Rightarrow> string \<Rightarrow> real \<Rightarrow> real \<Rightarrow> py_error + real"
  suggest_categorical :: "study \<Rightarrow> individual \<Rightarrow> string \<Rightarrow> real list \<Rightarrow> py_error + real"

text \<open>\<^verbatim>\<open>d[key] = v\<close> on a dictionary in insertion order.\<close>

fun dict_set :: "string \<Rightarrow> real \<Rightarrow> individual \<Rightarrow> individual" where
  "dict_set k v [] = [(k, v)]"
| "dict_set k v ((k', v') # rest) =
     (if k = k' then (k, v) # rest else (k', v') # dict_set k v rest)"

text \<open>
  One suggestion. Optuna raises ValueError on an interval with \<open>max < min\<close> and on an
  empty list of choices, whatever the sampler.
\<close>

definition suggest_param :: "optuna \<Rightarrow> study \<Rightarrow> string \<times> param_range \<Rightarrow> individual
    \<Rightarrow> py_error + individual" where
  "suggest_param opt told nr trial_params =
     (case nr of (param_name, r) \<Rightarrow>
       (case r of
          IntRange lo hi _ \<Rightarrow>
            (if hi < lo then Inl ValueError
             else (case suggest_int opt told trial_params param_name lo hi of
                     Inl e \<Rightarrow> Inl e
                   | Inr v \<Rightarrow> Inr (dict_set param_name (real_of_int v) trial_params)))
        | FloatRange lo hi _ \<Rightarrow>
            (if hi < lo then Inl ValueError
             else (case suggest_float opt told trial_params param_name lo hi of
                     Inl e \<Rightarrow> Inl e
                   | Inr v \<Rightarrow> Inr (dict_set param_name v trial_params)))
        | Categorical choices \<Rightarrow>
            (if choices = [] then Inl ValueError
             else (case suggest_categorical opt told trial_params param_name choices of
                     Inl e \<Rightarrow> Inl e
                   | Inr v \<Rightarrow> Inr (dict_set param_name v trial_params)))
        | OtherDict _ \<Rightarrow> Inr trial_params
        | Pair lo hi \<Rightarrow>
            (if hi < lo then Inl ValueError
             else (case suggest_float opt told trial_params param_name lo hi of
                     Inl e \<Rightarrow> Inl e
                   | Inr v \<Rightarrow> Inr (dict_set param_name v trial_params)))))"

text \<open>
  The suggestions of one trial, in the order of the domains: the parameters suggested, and
  the exception that stopped them if one was raised.
\<close>

fun suggest_all :: "optuna \<Rightarrow> study \<Rightarrow> (string \<times> param_range) list \<Rightarrow> individual
    \<Rightarrow> individual \<times> py_error option" where
  "suggest_all opt told [] trial_params = (trial_params, None)"
| "suggest_all opt told (nr # rest) trial_params =
     (case suggest_param opt told nr trial_params of
        Inl e \<Rightarrow> (trial_params, Some e)
      | Inr trial_params' \<Rightarrow> suggest_all opt told rest trial_params')"

definition objective_function :: "services \<Rightarrow> search_task \<Rightarrow> individual \<Rightarrow> pyfloat" where
  "objective_function env task trial_params =
     (case run_backtest env (backtest_call task (Some trial_params)) of
        Failure _ \<Rightarrow> NegInf
      | Success r \<Rightarrow>
         (let m = r_metrics r; objective = st_objective task in
          if objective = ''sharpe_ratio'' then metrics_get m ''sharpe_ratio'' (Fin 0)
          else if objective = ''total_return'' then metrics_get m ''total_return'' (Fin 0)
          else if objective = ''win_rate'' then metrics_get m ''win_rate'' (Fin 0)
          else if objective = ''max_drawdown'' then fneg (metrics_get m ''max_drawdown'' (Fin 1))
          else metrics_get m objective (Fin 0)))"

record bayes_state =
  told :: study
  trial_results :: "(nat \<times> individual \<times> pyfloat) list"
  b_best_params :: "individual option"
  b_best_value :: pyfloat

text \<open>
  One trial. When a suggestion raises, the \<^verbatim>\<open>except\<close> branch tells the study \<open>-inf\<close> and
  records nothing in \<^verbatim>\<open>trial_results\<close>.
\<close>

definition bayes_body :: "services \<Rightarrow> optuna \<Rightarrow> search_task \<Rightarrow> (string \<times> param_range) list
    \<Rightarrow> nat \<Rightarrow> bayes_state \<Rightarrow> bayes_state" where
  "bayes_body env opt task parameter_ranges i s =
     (case suggest_all opt (told s) parameter_ranges [] of
        (trial_params, Some e) \<Rightarrow> s\<lparr>told := told s @ [(trial_params, NegInf)]\<rparr>
      | (trial_params, None) \<Rightarrow>
         (let v = objective_function env task trial_params;
              s1 = s\<lparr>told := told s @ [(trial_params, v)],
                     trial_results := trial_results s @ [(i + 1, trial_params, v)]\<rparr>
          in if fgt v (b_best_value s1)
             then s1\<lparr>b_best_value := v, b_best_params := Some trial_params\<rparr>
             else s1))"

record bayes_result =
  by_state :: bayes_state
  by_n_trials :: nat
  by_final_backtest :: backtest_result

definition bayesian_optimization :: "services \<Rightarrow> optuna \<Rightarrow> search_task
    \<Rightarrow> (string \<times> param_range) list \<Rightarrow> nat \<Rightarrow> bayes_result" where
  "bayesian_optimization env opt task parameter_ranges n_trials =
     (let s = fold (bayes_body env opt task parameter_ranges) [0..<n_trials]
                \<lparr>told = [], trial_results = [], b_best_params = None, b_best_value = NegInf\<rparr>
      in \<lparr>by_state = s, by_n_trials = n_trials,
          by_final_backtest = run_backtest env (backtest_call task (b_best_params s))\<rparr>)"

section \<open>Genetic search\<close>

text \<open>
  numpy's random generator is a parameter: each draw takes the generator's state and
  returns the next one. \<open>np_choice_k n k\<close> is \<^verbatim>\<open>np.random.choice(n, k, replace=False)\<close>.
\<close>

record 'g numpy =
  np_randint :: "int \<Rightarrow> int \<Rightarrow> 'g \<Rightarrow> int \<times> 'g"
  np_uniform :: "real \<Rightarrow> real \<Rightarrow> 'g \<Rightarrow> real \<times> 'g"
  np_choice :: "real list \<Rightarrow> 'g \<Rightarrow> real \<times> 'g"
  np_random :: "'g \<Rightarrow> real \<times> 'g"
  np_choice_k :: "nat \<Rightarrow> nat \<Rightarrow> 'g \<Rightarrow> nat list \<times> 'g"
  np_argsort :: "pyfloat list \<Rightarrow> nat list"

text \<open>
  One random value of a domain; \<open>None\<close> for a dictionary of another type, which assigns
  nothing. \<^verbatim>\<open>randint\<close> raises when the interval is empty, \<^verbatim>\<open>choice\<close> on no choices.
\<close>

definition random_value :: "'g numpy \<Rightarrow> param_range \<Rightarrow> 'g \<Rightarrow> py_error + (real option \<times> 'g)" where
  "random_value np r g =
     (case r of
        IntRange lo hi _ \<Rightarrow>
          (if hi + 1 \<le> lo then Inl ValueError
           else (case np_randint np lo (hi + 1) g of (v, g') \<Rightarrow> Inr (Some (real_of_int v), g')))
      | FloatRange lo hi _ \<Rightarrow> (case np_uniform np lo hi g of (v, g') \<Rightarrow> Inr (Some v, g'))
      | Categorical choices \<Rightarrow>
          (if choices = [] then Inl ValueError
           else (case np_choice np choices g of (v, g') \<Rightarrow> Inr (Some v, g')))
      | OtherDict _ \<Rightarrow> Inr (None, g)
      | Pair lo hi \<Rightarrow> (case np_uniform np lo hi g of (v, g') \<Rightarrow> Inr (Some v, g')))"

fun random_individual :: "'g numpy \<Rightarrow> (string \<times> param_range) list \<Rightarrow> individual \<Rightarrow> 'g
    \<Rightarrow> py_error + (individual \<times> 'g)" where
  "random_individual np [] ind g = Inr (ind, g)"
| "random_individual np ((param_name, r) # rest) ind g =
     (case random_value np r g of
        Inl e \<Rightarrow> Inl e
      | Inr (None, g') \<Rightarrow> random_individual np rest ind g'
      | Inr (Some v, g') \<Rightarrow> random_individual np rest (dict_set param_name v ind) g')"

fun initial_population :: "'g numpy \<Rightarrow> (string \<times> param_range) list \<Rightarrow> nat \<Rightarrow> 'g
    \<Rightarrow> py_error + (individual list \<times> 'g)" where
  "initial_population np parameter_ranges 0 g = Inr ([], g)"
| "initial_population np parameter_ranges (Suc n) g =
     (case random_individual np parameter_ranges [] g of
        Inl e \<Rightarrow> Inl e
      | Inr (ind, g') \<Rightarrow>
         (case initial_population np parameter_ranges n g' of
            Inl e \<Rightarrow> Inl e
          | Inr (population, g'') \<Rightarrow> Inr (ind # population, g'')))"

definition fitness_of :: "services \<Rightarrow> search_task \<Rightarrow> individual \<Rightarrow> pyfloat" where
  "fitness_of env task ind =
     (case run_backtest env (backtest_call task (Some ind)) of
        Success r \<Rightarrow> metrics_get (r_metrics r) (st_objective task) (Fin 0)
      | Failure _ \<Rightarrow> NegInf)"

text \<open>The inner loop over the population: scores, and the best individual ever seen.\<close>

definition evaluate_individual :: "(individual \<Rightarrow> pyfloat) \<Rightarrow> individual
    \<Rightarrow> pyfloat list \<times> individual option \<times> pyfloat
    \<Rightarrow> pyfloat list \<times> individual option \<times> pyfloat" where
  "evaluate_individual fit ind acc =
     (case acc of (fitness_scores, best_ind, best_fit) \<Rightarrow>
        (let fitness = fit ind in
         if fgt fitness best_fit
         then (fitness_scores @ [fitness], Some ind, fitness)
         else (fitness_scores @ [fitness], best_ind, best_fit)))"

text \<open>Python's \<^verbatim>\<open>max\<close> and \<^verbatim>\<open>min\<close> of a non-empty list, and \<^verbatim>\<open>np.argmax\<close>.\<close>

definition py_max :: "pyfloat \<Rightarrow> pyfloat list \<Rightarrow> pyfloat" where
  "py_max x xs = fold (\<lambda>y m. if fgt y m then y else m) xs x"

definition py_min :: "pyfloat \<Rightarrow> pyfloat list \<Rightarrow> pyfloat" where
  "py_min x xs = fold (\<lambda>y m. if fgt m y then y else m) xs x"

fun argmax_from :: "nat \<Rightarrow> pyfloat \<Rightarrow> nat \<Rightarrow> pyfloat list \<Rightarrow> nat" where
  "argmax_from best_i best i [] = best_i"
| "argmax_from best_i best i (x # xs) =
     (if fgt x best then argmax_from i x (Suc i) xs else argmax_from best_i best (Suc i) xs)"

definition np_argmax :: "pyfloat list \<Rightarrow> nat" where
  "np_argmax xs = (case xs of [] \<Rightarrow> 0 | x # rest \<Rightarrow> argmax_from 0 x 1 rest)"

text \<open>\<^verbatim>\<open>np.mean\<close> of scores above \<open>-inf\<close>: nan (\<open>None\<close>) of no scores, inf when one is inf.\<close>

definition mean_fitness :: "pyfloat list \<Rightarrow> pyfloat option" where
  "mean_fitness fs =
     (if fs = [] then None
      else if PosInf \<in> set fs then Some PosInf
      else Some (Fin (np_mean (map (\<lambda>f. case f of Fin a \<Rightarrow> a | _ \<Rightarrow> 0) fs))))"

record generation_stats =
  gs_generation :: nat
  gs_best_fitness :: pyfloat
  gs_average_fitness :: "pyfloat option"
  gs_worst_fitness :: pyfloat

definition generation_statistics :: "nat \<Rightarrow> pyfloat list \<Rightarrow> py_error + generation_stats" where
  "generation_statistics generation fitness_scores =
     (case fitness_scores of
        [] \<Rightarrow> Inl ValueError
      | f # fs \<Rightarrow>
         (case filter (\<lambda>f. fgt f NegInf) fitness_scores of
            [] \<Rightarrow> Inl ValueError
          | w # ws \<Rightarrow>
             Inr \<lparr>gs_generation = generation + 1,
                  gs_best_fitness = py_max f fs,
                  gs_average_fitness = mean_fitness (w # ws),
                  gs_worst_fitness = py_min w ws\<rparr>))"

definition tournament_selection :: "'g numpy \<Rightarrow> individual list \<Rightarrow> pyfloat list \<Rightarrow> 'g
    \<Rightarrow> py_error + (individual \<times> 'g)" where
  "tournament_selection np population fitness_scores g =
     (if length population < 3 then Inl ValueError
      else
       (case np_choice_k np (length population) 3 g of (tournament_indices, g') \<Rightarrow>
          if \<not> list_all (\<lambda>i. i < length fitness_scores \<and> i < length population) tournament_indices
             \<or> tournament_indices = []
          then Inl IndexError
          else
           (let tournament_fitness = map (\<lambda>i. fitness_scores ! i) tournament_indices;
                winner_index = tournament_indices ! np_argmax tournament_fitness
            in Inr (population ! winner_index, g'))))"

fun crossover_keys :: "'g numpy \<Rightarrow> individual \<Rightarrow> individual \<Rightarrow> string list \<Rightarrow> individual \<Rightarrow> 'g
    \<Rightarrow> py_error + (individual \<times> 'g)" where
  "crossover_keys np parent1 parent2 [] child g = Inr (child, g)"
| "crossover_keys np parent1 parent2 (param_name # rest) child g =
     (case np_random np g of (u, g') \<Rightarrow>
        (case (if u < 0.5 then map_of parent1 param_name else map_of parent2 param_name) of
           None \<Rightarrow> Inl KeyError
         | Some v \<Rightarrow> crossover_keys np parent1 parent2 rest (dict_set param_name v child) g'))"

definition crossover :: "'g numpy \<Rightarrow> individual \<Rightarrow> individual \<Rightarrow> 'g
    \<Rightarrow> py_error + (individual \<times> 'g)" where
  "crossover np parent1 parent2 g = crossover_keys np parent1 parent2 (map fst parent1) [] g"

fun mutate :: "'g numpy \<Rightarrow> individual \<Rightarrow> (string \<times> param_range) list \<Rightarrow> real \<Rightarrow> 'g
    \<Rightarrow> py_error + (individual \<times> 'g)" where
  "mutate np mutated [] mutation_rate g = Inr (mutated, g)"
| "mutate np mutated ((param_name, r) # rest) mutation_rate g =
     (case np_random np g of (u, g') \<Rightarrow>
        if u < mutation_rate then
          (case random_value np r g' of
             Inl e \<Rightarrow> Inl e
           | Inr (None, g'') \<Rightarrow> mutate np mutated rest mutation_rate g''
           | Inr (Some v, g'') \<Rightarrow> mutate np (dict_set param_name v mutated) rest mutation_rate g'')
        else mutate np mutated rest mutation_rate g')"

definition make_child :: "'g numpy \<Rightarrow> individual list \<Rightarrow> pyfloat list
    \<Rightarrow> (string \<times> param_range) list \<Rightarrow> 'g \<Rightarrow> py_error + (individual \<times> 'g)" where
  "make_child np population fitness_scores parameter_ranges g =
     (case tournament_selection np population fitness_scores g of
        Inl e \<Rightarrow> Inl e
      | Inr (parent1, g1) \<Rightarrow>
         (case tournament_selection np population fitness_scores g1 of
            Inl e \<Rightarrow> Inl e
          | Inr (parent2, g2) \<Rightarrow>
             (case crossover np parent1 parent2 g2 of
                Inl e \<Rightarrow> Inl e
              | Inr (child, g3) \<Rightarrow> mutate np child parameter_ranges 0.1 g3)))"

text \<open>\<^verbatim>\<open>while len(new_population) < population_size\<close>\<close>

function refill :: "'g numpy \<Rightarrow> individual list \<Rightarrow> pyfloat list \<Rightarrow> (string \<times> param_range) list
    \<Rightarrow> nat \<Rightarrow> individual list \<Rightarrow> 'g \<Rightarrow> py_error + (individual list \<times> 'g)" where
  "refill np population fitness_scores parameter_ranges population_size new_population g =
     (if length new_population < population_size then
        (case make_child np population fitness_scores parameter_ranges g of
           Inl e \<Rightarrow> Inl e
         | Inr (child, g') \<Rightarrow>
            refill np population fitness_scores parameter_ranges population_size
              (new_population @ [child]) g')
      else Inr (new_population, g))"
  by pat_completeness auto
termination
  by (relation "measure (\<lambda>(np, population, fitness_scores, parameter_ranges, population_size,
        new_population, g). population_size - length new_population)") auto

definition next_population :: "'g numpy \<Rightarrow> (string \<times> param_range) list \<Rightarrow> nat
    \<Rightarrow> individual list \<Rightarrow> pyfloat list \<Rightarrow> 'g \<Rightarrow> py_error + (individual list \<times> 'g)" where
  "next_population np parameter_ranges population_size population fitness_scores g =
     (let elite_size = population_size div 4;
          sorted_indices = rev (np_argsort np fitness_scores)
      in if \<not> list_all (\<lambda>i. i < length population) (take elite_size sorted_indices)
         then Inl IndexError
         else
          (let elite = map (\<lambda>i. population ! i) (take elite_size sorted_indices)
           in refill np population fitness_scores parameter_ranges population_size elite g))"

text \<open>The variables that live across generations.\<close>

record 'g ga_state =
  population :: "individual list"
  best_individual :: "individual option"
  best_fitness :: pyfloat
  generation_history :: "generation_stats list"
  rng :: 'g

text \<open>The body of \<^verbatim>\<open>for generation in range(generations)\<close>.\<close>

definition generation_body :: "'g numpy \<Rightarrow> (individual \<Rightarrow> pyfloat) \<Rightarrow> (string \<times> param_range) list
    \<Rightarrow> nat \<Rightarrow> nat \<Rightarrow> nat \<Rightarrow> 'g ga_state \<Rightarrow> py_error + 'g ga_state" where
  "generation_body np fit parameter_ranges population_size generations generation s =
     (case fold (evaluate_individual fit) (population s) ([], best_individual s, best_fitness s) of
        (fitness_scores, best_ind, best_fit) \<Rightarrow>
        (case generation_statistics generation fitness_scores of
           Inl e \<Rightarrow> Inl e
         | Inr generation_stats \<Rightarrow>
            (let s1 = s\<lparr>best_individual := best_ind, best_fitness := best_fit,
                        generation_history := generation_history s @ [generation_stats]\<rparr>
             in if Suc generation < generations then
                  (case next_population np parameter_ranges population_size (population s)
                          fitness_scores (rng s) of
                     Inl e \<Rightarrow> Inl e
                   | Inr (new_population, g') \<Rightarrow>
                       Inr (s1\<lparr>population := new_population, rng := g'\<rparr>))
                else Inr s1)))"

text \<open>The state after the first \<open>n\<close> generations of a run of \<open>generations\<close> generations.\<close>

fun ga_loop :: "'g numpy \<Rightarrow> (individual \<Rightarrow> pyfloat) \<Rightarrow> (string \<times> param_range) list
    \<Rightarrow> nat \<Rightarrow> nat \<Rightarrow> 'g ga_state \<Rightarrow> nat \<Rightarrow> py_error + 'g ga_state" where
  "ga_loop np fit parameter_ranges population_size generations s0 0 = Inr s0"
| "ga_loop np fit parameter_ranges population_size generations s0 (Suc n) =
     (case ga_loop np fit parameter_ranges population_size generations s0 n of
        Inl e \<Rightarrow> Inl e
      | Inr s \<Rightarrow> generation_body np fit parameter_ranges population_size generations n s)"

definition ga_start :: "'g numpy \<Rightarrow> (string \<times> param_range) list \<Rightarrow> nat \<Rightarrow> 'g
    \<Rightarrow> py_error + 'g ga_state" where
  "ga_start np parameter_ranges population_size g =
     (case initial_population np parameter_ranges population_size g of
        Inl e \<Rightarrow> Inl e
      | Inr (pop0, g') \<Rightarrow>
          Inr \<lparr>population = pop0, best_individual = None, best_fitness = NegInf,
               generation_history = [], rng = g'\<rparr>)"

record 'g genetic_result =
  ga_final :: "'g ga_state"
  ga_final_backtest :: backtest_result

definition genetic_optimization :: "services \<Rightarrow> 'g numpy \<Rightarrow> search_task
    \<Rightarrow> (string \<times> param_range) list \<Rightarrow> nat \<Rightarrow> nat \<Rightarrow> 'g \<Rightarrow> py_error + 'g genetic_result" where
  "genetic_optimization env np task parameter_ranges population_size generations g =
     (case ga_start np parameter_ranges population_size g of
        Inl e \<Rightarrow> Inl e
      | Inr s0 \<Rightarrow>
         (case ga_loop np (fitness_of env task) parameter_ranges population_size generations
                 s0 generations of
            Inl e \<Rightarrow> Inl e
          | Inr s \<Rightarrow>
              Inr \<lparr>ga_final = s,
                   ga_final_backtest =
                     run_backtest env (backtest_call task (best_individual s))\<rparr>))"

section \<open>Walk-forward analysis\<close>

text \<open>
  The window loop: the code's \<^verbatim>\<open>results\<close> (the successful windows) and the state of the
  service. With a step of zero or less the loop never ends, so it is a partial function:
  \<open>None\<close> is not returning.
\<close>

definition window_call :: "search_task \<Rightarrow> individual \<Rightarrow> int \<Rightarrow> int \<Rightarrow> backtest_params" where
  "window_call task base_parameters window_start window_end =
     (backtest_call task (Some base_parameters))
       \<lparr>bp_start_date := window_start, bp_end_date := window_end\<rparr>"

definition window_body :: "'w service \<Rightarrow> search_task \<Rightarrow> individual \<Rightarrow> int \<Rightarrow> int
    \<Rightarrow> (int \<times> int \<times> metrics) list \<times> 'w \<Rightarrow> (int \<times> int \<times> metrics) list \<times> 'w" where
  "window_body bt task base_parameters window_start window_end rw =
     (case rw of (window_results, w) \<Rightarrow>
       (case bt (window_call task base_parameters window_start window_end) w of
          (backtest_result, w1) \<Rightarrow>
           (case backtest_result of
              Failure _ \<Rightarrow> (window_results, w1)
            | Success r \<Rightarrow>
                (window_results @ [(window_start, window_end, r_metrics r)], w1))))"

partial_function (option) window_loop :: "'w service \<Rightarrow> search_task \<Rightarrow> individual \<Rightarrow> int
    \<Rightarrow> int \<Rightarrow> int \<Rightarrow> int \<Rightarrow> (int \<times> int \<times> metrics) list \<times> 'w
    \<Rightarrow> ((int \<times> int \<times> metrics) list \<times> 'w) option" where
  "window_loop bt task base_parameters window_size step_size end_date current_date rw =
     (if current_date + window_size \<le> end_date
      then window_loop bt task base_parameters window_size step_size end_date
             (current_date + step_size)
             (window_body bt task base_parameters current_date (current_date + window_size) rw)
      else Some rw)"

definition walk_forward_analysis :: "'w service \<Rightarrow> search_task \<Rightarrow> individual \<Rightarrow> int \<Rightarrow> int
    \<Rightarrow> 'w \<Rightarrow> ((int \<times> int \<times> metrics) list \<times> 'w) option" where
  "walk_forward_analysis bt task base_parameters window_size step_size w =
     window_loop bt task base_parameters window_size step_size (st_end_date task)
       (st_start_date task) ([], w)"

section \<open>Invariants, call sequences and declared grids\<close>

text \<open>
  A sequence of calls made on a service one after the other: the answers, and the state
  the service is left in.
\<close>

fun run_calls :: "'w service \<Rightarrow> backtest_params list \<Rightarrow> 'w \<Rightarrow> backtest_result list \<times> 'w" where
  "run_calls bt [] w = ([], w)"
| "run_calls bt (c # cs) w =
     (case bt c w of (r, w1) \<Rightarrow> (case run_calls bt cs w1 of (rs, w2) \<Rightarrow> (r # rs, w2)))"

text \<open>
  What grid search keeps of a combination and the answer to its backtest, and what the
  walk-forward analysis keeps of a window and the answer to its backtest: an entry for a
  success, nothing for a failure.
\<close>

definition recorded :: "search_task \<Rightarrow> individual \<times> backtest_result
    \<Rightarrow> (individual \<times> pyfloat \<times> metrics) list" where
  "recorded task co =
     (case co of (c, out) \<Rightarrow>
        (case out of
           Failure _ \<Rightarrow> []
         | Success r \<Rightarrow> [(c, metrics_get (r_metrics r) (st_objective task) (Fin 0), r_metrics r)]))"

definition window_recorded :: "(int \<times> int) \<times> backtest_result \<Rightarrow> (int \<times> int \<times> metrics) list" where
  "window_recorded wo =
     (case wo of ((window_start, window_end), out) \<Rightarrow>
        (case out of
           Failure _ \<Rightarrow> []
         | Success r \<Rightarrow> [(window_start, window_end, r_metrics r)]))"

text \<open>The windows of a walk-forward analysis: \<open>n\<close> of them, one step apart.\<close>

definition windows :: "int \<Rightarrow> int \<Rightarrow> int \<Rightarrow> nat \<Rightarrow> (int \<times> int) list" where
  "windows first window_size step_size n =
     map (\<lambda>k. (first + int k * step_size, first + int k * step_size + window_size)) [0..<n]"

text \<open>
  The invariant of the grid-search loop: the best value dominates every recorded value,
  and it is \<open>-inf\<close> with no best parameters or the value of a recorded combination that
  is the best one.
\<close>

definition best_of_results :: "sweep_state \<Rightarrow> bool" where
  "best_of_results s \<longleftrightarrow>
     list_all (\<lambda>(c, v, m). fge (best_value s) v) (results s)
     \<and> ((best_params s = None \<and> best_value s = NegInf)
        \<or> list_ex (\<lambda>(c, v, m). best_params s = Some c \<and> best_value s = v) (results s))"


text \<open>
  The invariant of the genetic loop: the tracked best fitness dominates the best of every
  generation recorded so far, and once a generation has been recorded it is the best of
  one of them and the fitness of the tracked best individual.
\<close>

definition elitist :: "(individual \<Rightarrow> pyfloat) \<Rightarrow> 'g ga_state \<Rightarrow> bool" where
  "elitist fit s \<longleftrightarrow>
     list_all (\<lambda>st. fge (best_fitness s) (gs_best_fitness st)) (generation_history s)
     \<and> (if generation_history s = [] then best_fitness s = NegInf
        else list_ex (\<lambda>st. gs_best_fitness st = best_fitness s) (generation_history s)
             \<and> (case best_individual s of None \<Rightarrow> False | Some ind \<Rightarrow> fit ind = best_fitness s))"

text \<open>
  The grid a domain of int parameters declares, in the specification's words: each
  parameter ranges over \<open>min, min + step, ...\<close> up to \<open>max\<close>, with a positive step (1 when
  none is declared).
\<close>

definition int_domain :: "(string \<times> param_range) list \<Rightarrow> bool" where
  "int_domain parameter_ranges =
     list_all (\<lambda>(param_name, r).
        case r of
          IntRange lo hi st \<Rightarrow> (case st of None \<Rightarrow> True | Some k \<Rightarrow> 0 < k)
        | _ \<Rightarrow> False) parameter_ranges"

definition declared_values :: "param_range \<Rightarrow> real set" where
  "declared_values r =
     (case r of
        IntRange lo hi st \<Rightarrow>
          {real_of_int (lo + int k * (case st of None \<Rightarrow> 1 | Some j \<Rightarrow> j)) | k.
             lo + int k * (case st of None \<Rightarrow> 1 | Some j \<Rightarrow> j) \<le> hi}
      | _ \<Rightarrow> {})"

section \<open>Reference inputs\<close>

text \<open>
  Instances of the library parameter, used to run the model on concrete inputs:
  the rolling mean as pandas computes it (nan until the window is full, ValueError on a
  window that is not a non-negative integer), and a series given as a table.
\<close>

definition rolling_window_mean :: "nat \<Rightarrow> real list \<Rightarrow> series" where
  "rolling_window_mean n xs i =
     (if n = 0 \<or> i + 1 < n \<or> length xs \<le> i then None
      else Some (sum_list (take n (drop (i + 1 - n) xs)) / real n))"

definition rolling_mean :: "real list \<Rightarrow> real \<Rightarrow> py_error + series" where
  "rolling_mean xs w =
     (if w < 0 \<or> w \<noteq> of_int \<lfloor>w\<rfloor> then Inl ValueError
      else Inr (rolling_window_mean (nat \<lfloor>w\<rfloor>) xs))"

definition table_series :: "real option list \<Rightarrow> series" where
  "table_series t i = (if i < length t then t ! i else None)"

definition no_series :: series where
  "no_series i = None"

definition test_lib :: "real option list \<Rightarrow> indicators" where
  "test_lib rsi_table =
     \<lparr>rsi_ind = (\<lambda>xs w. Inr (table_series rsi_table)),
      macd_ind = (\<lambda>xs a b c. Inr no_series),
      macd_signal_ind = (\<lambda>xs a b c. Inr no_series),
      rolling_mean_ind = rolling_mean,
      bb_hband_ind = (\<lambda>xs w k. Inr no_series),
      bb_lband_ind = (\<lambda>xs w k. Inr no_series),
      bb_mavg_ind = (\<lambda>xs w k. Inr no_series)\<rparr>"

definition bars :: "real list \<Rightarrow> bar list" where
  "bars closes = map (\<lambda>(i, c). \<lparr>timestamp = real i, close = c\<rparr>) (enumerate 0 closes)"

text \<open>
  A market that answers four hourly bars for every request, a search task over one year,
  and a sampler that always suggests the lower bound.
\<close>

definition test_env :: services where
  "test_env =
     \<lparr>indicator_lib = test_lib [None, Some 25, Some 50, Some 75],
      market_data = (\<lambda>symbol start_date end_date. bars [100, 90, 95, 120])\<rparr>"

definition test_task :: "string \<Rightarrow> string \<Rightarrow> search_task" where
  "test_task strategy objective =
     \<lparr>st_strategy_name = strategy, st_symbol = ''BTCUSDT'', st_start_date = 0,
      st_end_date = 365, st_objective = objective\<rparr>"

definition test_optuna :: optuna where
  "test_optuna =
     \<lparr>suggest_int = (\<lambda>told trial_params name lo hi. Inr lo),
      suggest_float = (\<lambda>told trial_params name lo hi. Inr lo),
      suggest_categorical = (\<lambda>told trial_params name choices. Inr (hd choices))\<rparr>"

text \<open>
  The runner together with a journal of the calls it receives, and a service that is
  down and only counts its calls.
\<close>

definition journal_service :: "services \<Rightarrow> backtest_params list service" where
  "journal_service env bp journal = (run_backtest env bp, journal @ [bp])"

definition counting_service :: "nat service" where
  "counting_service bp n = (Failure ''unavailable'', Suc n)"

text \<open>
  Five bars on which the 2-bar mean crosses above the 3-bar mean at bar 3 and stays above
  at bar 4, and the parameter dictionary \<^verbatim>\<open>_execute_strategy\<close> builds from
  \<^verbatim>\<open>{"fast_ma": 2, "slow_ma": 3}\<close> and the registry's defaults.
\<close>

definition ma_df :: "bar list" where
  "ma_df = bars [100, 100, 100, 130, 120]"

definition ma_params :: "string \<Rightarrow> real" where
  "ma_params name =
     (if name = ''fast_ma'' then 2 else if name = ''slow_ma'' then 3
      else if name = ''stop_loss'' then 0.03 else if name = ''take_profit'' then 0.06 else 0)"

text \<open>
  A deterministic stand-in for numpy's generator, its state a counter; \<open>np_argsort\<close> is an
  insertion sort of the indices by score.
\<close>

fun insert_index :: "pyfloat list \<Rightarrow> nat \<Rightarrow> nat list \<Rightarrow> nat list" where
  "insert_index fs i [] = [i]"
| "insert_index fs i (j # js) =
     (if fgt (fs ! i) (fs ! j) then j # insert_index fs i js else i # j # js)"

definition test_numpy :: "nat numpy" where
  "test_numpy =
     \<lparr>np_randint = (\<lambda>lo hi g. (lo + int g mod (hi - lo), Suc g)),
      np_uniform = (\<lambda>lo hi g. (lo, Suc g)),
      np_choice = (\<lambda>choices g. (choices ! (g mod length choices), Suc g)),
      np_random = (\<lambda>g. (if even g then 1 / 4 else 3 / 4, Suc g)),
      np_choice_k = (\<lambda>n k g. (map (\<lambda>j. (g + j) mod n) [0..<k], Suc g)),
      np_argsort = (\<lambda>fs. foldr (insert_index fs) [0..<length fs] [])\<rparr>"

definition ga_ranges :: "(string \<times> param_range) list" where
  "ga_ranges = [(''oversold_level'', IntRange 24 27 None)]"

text \<open>
  A genetic run over one int parameter: the first population, the second one, and the
  statistics of the two generations.
\<close>

definition ga_task :: search_task where
  "ga_task = test_task ''rsi_strategy'' ''total_return''"

definition pop0 :: "individual list" where
  "pop0 = [[(''oversold_level'', 24)], [(''oversold_level'', 25)], [(''oversold_level'', 26)], [(''oversold_level'', 27)]]"

definition pop1 :: "individual list" where
  "pop1 = [[(''oversold_level'', 27)], [(''oversold_level'', 26)], [(''oversold_level'', 26)], [(''oversold_level'', 26)]]"

definition stats1 :: generation_stats where
  "stats1 = \<lparr>gs_generation = 1, gs_best_fitness = Fin (475 / 9),
        gs_average_fitness = Some (Fin (475 / 18)), gs_worst_fitness = Fin 0\<rparr>"

definition stats2 :: generation_stats where
  "stats2 = \<lparr>gs_generation = 2, gs_best_fitness = Fin (475 / 9),
        gs_average_fitness = Some (Fin (475 / 9)), gs_worst_fitness = Fin (475 / 9)\<rparr>"

text \<open>The two-parameter grid of the specification's example.\<close>

definition ab_ranges :: "(string \<times> param_range) list" where
  "ab_ranges = [(''a'', IntRange 1 3 None), (''b'', IntRange 1 2 None)]"

definition ab_combinations :: "individual list" where
  "ab_combinations =
     [[(''a'', 1), (''b'', 1)], [(''a'', 1), (''b'', 2)],
      [(''a'', 2), (''b'', 1)], [(''a'', 2), (''b'', 2)],
      [(''a'', 3), (''b'', 1)], [(''a'', 3), (''b'', 2)]]"

text \<open>A closed trade that neither won nor lost.\<close>

definition flat_trade :: trade where
  "flat_trade =
     \<lparr>t_entry_time = 1, t_exit_time = 2, t_entry_price = 100, t_exit_price = 100,
      t_quantity = 9.5, pnl = 0, pnl_pct = 0, exit_reason = ''RSI_OVERBOUGHT'',
      duration_hours = 1\<rparr>"

section \<open>Properties of the strategy evaluator\<close>

lemma fold_curve_length:
  assumes "\<And>i s. length (equity_curve (body i s)) = Suc (length (equity_curve s))"
  shows "length (equity_curve (fold body xs s)) = length (equity_curve s) + length xs"
  using assms by (induction xs arbitrary: s) simp_all

lemma for_bars_length:
  assumes "\<And>i s. length (equity_curve (body i s)) = Suc (length (equity_curve s))"
  shows "length (snd (for_bars body df ic)) = Suc (length df - 1)"
  by (simp add: for_bars_def Let_def fold_curve_length[OF assms] init_state_def)

lemma append_equity_length [simp]:
  "length (equity_curve (append_equity s)) = Suc (length (equity_curve s))"
  by (simp add: append_equity_def)

lemma open_position_curve [simp]: "equity_curve (open_position ps p t s) = equity_curve s"
  by (simp add: open_position_def)

lemma close_position_curve [simp]: "equity_curve (close_position q p t r s) = equity_curve s"
  by (simp add: close_position_def Let_def)

lemma rsi_body_length:
  "length (equity_curve (rsi_body rsi params df i s)) = Suc (length (equity_curve s))"
  by (simp add: rsi_body_def Let_def split: option.splits prod.splits)

lemma macd_body_length:
  "length (equity_curve (macd_body a b params df i s)) = Suc (length (equity_curve s))"
  by (simp add: macd_body_def Let_def split: option.splits)

lemma ma_body_length:
  "length (equity_curve (ma_body a b params df i s)) = Suc (length (equity_curve s))"
  by (simp add: ma_body_def Let_def split: option.splits)

lemma bollinger_body_length:
  "length (equity_curve (bollinger_body a b params df i s)) = Suc (length (equity_curve s))"
  by (simp add: bollinger_body_def Let_def split: option.splits)












lemma registry_names:
  "name \<in> fst ` set load_strategies \<longleftrightarrow>
     name = ''rsi_strategy'' \<or> name = ''macd_strategy'' \<or> name = ''ma_crossover''
       \<or> name = ''bollinger_bands''"
  by (auto simp: load_strategies_def)







lemma strategies_length:
  assumes "df \<noteq> []"
  shows "execute_rsi_strategy ta df ps ic = Inr r \<Longrightarrow> length (snd r) = length df"
    and "execute_macd_strategy ta df ps ic = Inr r \<Longrightarrow> length (snd r) = length df"
    and "execute_ma_crossover_strategy ta df ps ic = Inr r \<Longrightarrow> length (snd r) = length df"
    and "execute_bollinger_strategy ta df ps ic = Inr r \<Longrightarrow> length (snd r) = length df"
proof -
  from assms have n: "Suc (length df - Suc 0) = length df" by (cases df) simp_all
  show "execute_rsi_strategy ta df ps ic = Inr r \<Longrightarrow> length (snd r) = length df"
    using for_bars_length[of "rsi_body _ ps df" df ic, OF rsi_body_length] n
    by (auto simp: execute_rsi_strategy_def split: sum.splits)
  show "execute_macd_strategy ta df ps ic = Inr r \<Longrightarrow> length (snd r) = length df"
    using for_bars_length[of "macd_body _ _ ps df" df ic, OF macd_body_length] n
    by (auto simp: execute_macd_strategy_def split: sum.splits)
  show "execute_ma_crossover_strategy ta df ps ic = Inr r \<Longrightarrow> length (snd r) = length df"
    using for_bars_length[of "ma_body _ _ ps df" df ic, OF ma_body_length] n
    by (auto simp: execute_ma_crossover_strategy_def split: sum.splits)
  show "execute_bollinger_strategy ta df ps ic = Inr r \<Longrightarrow> length (snd r) = length df"
    using for_bars_length[of "bollinger_body _ _ ps df" df ic, OF bollinger_body_length] n
    by (auto simp: execute_bollinger_strategy_def split: sum.splits)
qed

text \<open>
  C5, as the code has it. Over a non-empty data frame of N bars, each of the four strategy
  loops either raises, because one of its indicators did, or returns an equity curve of
  exactly N entries: the seed and one value for each of the bars 1 .. N - 1.
  \<^verbatim>\<open>_execute_strategy\<close> returns that curve when nothing raises inside its \<^verbatim>\<open>try\<close> block;
  when something does (a name that is not registered, \<^verbatim>\<open>parameters\<close> being \<^verbatim>\<open>None\<close>, an
  indicator that rejects its window) it returns the seed alone, a curve of one entry.
\<close>

theorem equity_curve_length:
  assumes "df \<noteq> []"
  shows "(case execute_rsi_strategy ta df params initial_capital of
            Inl e \<Rightarrow> rsi_ind ta (map close df) (params ''rsi_period'') = Inl e
          | Inr (ts, ec) \<Rightarrow> length ec = length df)
       \<and> (case execute_macd_strategy ta df params initial_capital of
            Inl e \<Rightarrow>
              macd_ind ta (map close df) (params ''fast_period'') (params ''slow_period'')
                (params ''signal_period'') = Inl e
              \<or> macd_signal_ind ta (map close df) (params ''fast_period'')
                  (params ''slow_period'') (params ''signal_period'') = Inl e
          | Inr (ts, ec) \<Rightarrow> length ec = length df)
       \<and> (case execute_ma_crossover_strategy ta df params initial_capital of
            Inl e \<Rightarrow>
              rolling_mean_ind ta (map close df) (params ''fast_ma'') = Inl e
              \<or> rolling_mean_ind ta (map close df) (params ''slow_ma'') = Inl e
          | Inr (ts, ec) \<Rightarrow> length ec = length df)
       \<and> (case execute_bollinger_strategy ta df params initial_capital of
            Inl e \<Rightarrow>
              bb_hband_ind ta (map close df) (params ''period'') (params ''std_dev'') = Inl e
              \<or> bb_lband_ind ta (map close df) (params ''period'') (params ''std_dev'') = Inl e
              \<or> bb_mavg_ind ta (map close df) (params ''period'') (params ''std_dev'') = Inl e
          | Inr (ts, ec) \<Rightarrow> length ec = length df)
       \<and> (case execute_strategy_try ta strategy_name df parameters initial_capital of
            Inl e \<Rightarrow>
              execute_strategy ta strategy_name df parameters initial_capital
                = ([], [initial_capital])
          | Inr r \<Rightarrow>
              execute_strategy ta strategy_name df parameters initial_capital = r
              \<and> length (snd r) = length df)"
proof -
  note len = strategies_length[OF assms]
  have a: "case execute_rsi_strategy ta df params initial_capital of
            Inl e \<Rightarrow> rsi_ind ta (map close df) (params ''rsi_period'') = Inl e
          | Inr (ts, ec) \<Rightarrow> length ec = length df"
    using len(1)[of ta params initial_capital]
    by (auto simp: execute_rsi_strategy_def split: sum.splits prod.splits)
  have b: "case execute_macd_strategy ta df params initial_capital of
            Inl e \<Rightarrow>
              macd_ind ta (map close df) (params ''fast_period'') (params ''slow_period'')
                (params ''signal_period'') = Inl e
              \<or> macd_signal_ind ta (map close df) (params ''fast_period'')
                  (params ''slow_period'') (params ''signal_period'') = Inl e
          | Inr (ts, ec) \<Rightarrow> length ec = length df"
    using len(2)[of ta params initial_capital]
    by (auto simp: execute_macd_strategy_def split: sum.splits prod.splits)
  have c: "case execute_ma_crossover_strategy ta df params initial_capital of
            Inl e \<Rightarrow>
              rolling_mean_ind ta (map close df) (params ''fast_ma'') = Inl e
              \<or> rolling_mean_ind ta (map close df) (params ''slow_ma'') = Inl e
          | Inr (ts, ec) \<Rightarrow> length ec = length df"
    using len(3)[of ta params initial_capital]
    by (auto simp: execute_ma_crossover_strategy_def split: sum.splits prod.splits)
  have d: "case execute_bollinger_strategy ta df params initial_capital of
            Inl e \<Rightarrow>
              bb_hband_ind ta (map close df) (params ''period'') (params ''std_dev'') = Inl e
              \<or> bb_lband_ind ta (map close df) (params ''period'') (params ''std_dev'') = Inl e
              \<or> bb_mavg_ind ta (map close df) (params ''period'') (params ''std_dev'') = Inl e
          | Inr (ts, ec) \<Rightarrow> length ec = length df"
    using len(4)[of ta params initial_capital]
    by (auto simp: execute_bollinger_strategy_def split: sum.splits prod.splits)
  have e: "length (snd r) = length df"
    if "execute_strategy_try ta strategy_name df parameters initial_capital = Inr r" for r
    using that
    by (auto simp: execute_strategy_try_def Let_def split: option.splits if_splits dest: len)
  have f: "case execute_strategy_try ta strategy_name df parameters initial_capital of
            Inl e \<Rightarrow>
              execute_strategy ta strategy_name df parameters initial_capital
                = ([], [initial_capital])
          | Inr r \<Rightarrow>
              execute_strategy ta strategy_name df parameters initial_capital = r
              \<and> length (snd r) = length df"
    using e by (auto simp: execute_strategy_def split: sum.splits)
  from a b c d f show ?thesis by blast
qed

theorem equity_curve_length_witness:
  "bars [100, 90, 120] \<noteq> []
   \<and> (\<exists>ts ec. execute_rsi_strategy (test_lib [None, Some 25, Some 75]) (bars [100, 90, 120])
                 ma_params 1000 = Inr (ts, ec) \<and> length ec = 3)
   \<and> length (snd (execute_strategy (test_lib [None, Some 25, Some 75]) ''rsi_strategy''
                    (bars [100, 90, 120]) (Some Map.empty) 1000)) = 3"
  using equity_curve_length[of "bars [100, 90, 120]" "test_lib [None, Some 25, Some 75]"
          ma_params 1000 "''rsi_strategy''" "Some Map.empty"]
  by (auto simp: bars_def test_lib_def execute_rsi_strategy_def execute_strategy_try_def
        load_strategies_def Let_def split: sum.splits prod.splits)

text \<open>
  The claim as the specification states it (every strategy evaluation over N bars returns
  N entries) fails: on five bars, the dispatch called with no parameters, or with a
  moving-average window of 2.5 that the rolling mean rejects, returns one entry.
\<close>

theorem equity_curve_length_counterexample:
  "length ma_df = 5
   \<and> execute_strategy (test_lib []) ''ma_crossover'' ma_df None 1000 = ([], [1000])
   \<and> execute_strategy (test_lib []) ''ma_crossover'' ma_df (Some [''fast_ma'' \<mapsto> 2.5]) 1000
       = ([], [1000])"
  by (simp add: ma_df_def bars_def execute_strategy_def execute_strategy_try_def
        load_strategies_def cfg_def Let_def execute_ma_crossover_strategy_def test_lib_def
        rolling_mean_def)

text \<open>
  C1 (exit priority: strategy signal, then stop loss, then take profit). The RSI and MACD
  loops test the three conditions in that order. The moving-average and Bollinger loops
  store \<open>stop_loss\<close> and \<open>take_profit\<close> in the position and never read them: below,
  the moving-average strategy enters at 130 on bar 3 with a stop at 126.1, sees the
  close 120 on bar 4, and keeps the position, so that no trade is emitted.
\<close>

theorem ma_crossover_holds_through_stop_loss:
  "pos (fold (ma_body (rolling_window_mean 2 (map close ma_df))
               (rolling_window_mean 3 (map close ma_df)) ma_params ma_df)
          [1..<4] (init_state 1000))
     = Some \<lparr>entry_price = 130, entry_time = 3, quantity = 95 / 13,
             stop_loss = 126.1, take_profit = 137.8\<rparr>
   \<and> close (ma_df ! 4) = 120
   \<and> execute_strategy (test_lib []) ''ma_crossover'' ma_df
        (Some [''fast_ma'' \<mapsto> 2, ''slow_ma'' \<mapsto> 3]) 1000
       = ([], [1000, 1000, 1000, 1000, 1000])"
  by (simp add: execute_strategy_def execute_strategy_try_def load_strategies_def ma_params_def
    ma_df_def bars_def execute_ma_crossover_strategy_def for_bars_def Let_def test_lib_def
    rolling_mean_def rolling_window_mean_def
    upt_conv_Cons ma_body_def init_state_def nan_le_def nan_lt_def nan_gt_def nan_ge_def
    append_equity_def open_position_def close_position_def cfg_def)

section \<open>Properties of the metrics\<close>

text \<open>
  C9 (metrics degeneracy). With no trades and the equity curve \<open>[initial_capital]\<close>,
  \<^verbatim>\<open>_calculate_metrics\<close> raises nothing and returns a dictionary in which win_rate,
  profit_factor, sharpe_ratio and max_drawdown are all 0.
\<close>

theorem metrics_degeneracy:
  "\<exists>kv. calculate_metrics [] [initial_capital] initial_capital = Metrics kv
     \<and> map_of kv ''win_rate'' = Some (Fin 0)
     \<and> map_of kv ''profit_factor'' = Some (Fin 0)
     \<and> map_of kv ''sharpe_ratio'' = Some (Fin 0)
     \<and> map_of kv ''max_drawdown'' = Some (Fin 0)"
  by (simp add: calculate_metrics_def)

lemma drawdown_loop_defined:
  "0 < peak \<Longrightarrow> \<exists>d. drawdown_loop peak md vs = Inr d"
  by (induction vs arbitrary: peak md) (auto simp: Let_def)

text \<open>
  C10 (profit-factor sentinel). For a non-empty trade list whose gross loss (the absolute
  value of the sum of the negative pnl) is zero, every metrics dictionary returned has
  profit_factor = +inf, whatever the gross profit is, so also when every pnl is 0. A
  dictionary is returned whenever the initial capital is not zero and the equity curve
  starts with a positive value.
\<close>

theorem profit_factor_sentinel:
  assumes "ts \<noteq> []" and "\<bar>sum_list (map pnl (filter (\<lambda>t. pnl t < 0) ts))\<bar> = 0"
  shows "(\<forall>kv. calculate_metrics ts ec ic = Metrics kv
              \<longrightarrow> map_of kv ''profit_factor'' = Some PosInf)
       \<and> (ic \<noteq> 0 \<and> ec \<noteq> [] \<and> 0 < hd ec \<longrightarrow> (\<exists>kv. calculate_metrics ts ec ic = Metrics kv))"
proof (intro conjI allI impI)
  fix kv assume "calculate_metrics ts ec ic = Metrics kv"
  with assms show "map_of kv ''profit_factor'' = Some PosInf"
    by (auto simp: calculate_metrics_def Let_def split: if_splits list.splits sum.splits)
next
  assume h: "ic \<noteq> 0 \<and> ec \<noteq> [] \<and> 0 < hd ec"
  then obtain p rest where ec: "ec = p # rest" and p: "0 < p" by (cases ec) auto
  from drawdown_loop_defined[OF p] obtain d where "drawdown_loop p 0 ec = Inr d" by blast
  with assms h ec show "\<exists>kv. calculate_metrics ts ec ic = Metrics kv"
    by (simp add: calculate_metrics_def Let_def)
qed

theorem profit_factor_sentinel_witness:
  "[flat_trade] \<noteq> [] \<and> \<bar>sum_list (map pnl (filter (\<lambda>t. pnl t < 0) [flat_trade]))\<bar> = 0
   \<and> (\<exists>kv. calculate_metrics [flat_trade] [1000, 1000, 1000] 1000 = Metrics kv
         \<and> map_of kv ''profit_factor'' = Some PosInf)"
  using profit_factor_sentinel[of "[flat_trade]" "[1000, 1000, 1000]" 1000]
  by (simp add: flat_trade_def) blast

section \<open>Properties of the search engines\<close>

text \<open>
  C3 (search stays inside the declared bounds). Grid search over a float domain takes
  \<^verbatim>\<open>np.arange(min, max + step, step)\<close>: with the declared domain \<open>[0, 1]\<close> and step
  \<open>0.3\<close> it probes \<open>1.2\<close>, above the declared maximum.
\<close>

theorem float_grid_leaves_bounds:
  "generate_parameter_combinations [(''x'', FloatRange 0 1 (Some 0.3))]
     = Inr [[(''x'', 0)], [(''x'', 0.3)], [(''x'', 0.6)], [(''x'', 0.9)], [(''x'', 1.2)]]"
  by (simp add: generate_parameter_combinations_def grid_values_def np_arange_def upt_conv_Cons)

lemma bayes_body_unknown:
  assumes "\<And>ps. objective_function env task ps = NegInf"
    and "b_best_value s = NegInf" and "b_best_params s = None"
    and "list_all (\<lambda>(tp, v). v = NegInf) (told s)"
    and "list_all (\<lambda>(i, tp, v). v = NegInf) (trial_results s)"
  shows "b_best_value (bayes_body env opt task ranges i s) = NegInf"
    and "b_best_params (bayes_body env opt task ranges i s) = None"
    and "list_all (\<lambda>(tp, v). v = NegInf) (told (bayes_body env opt task ranges i s))"
    and "list_all (\<lambda>(i, tp, v). v = NegInf) (trial_results (bayes_body env opt task ranges i s))"
    and "length (told (bayes_body env opt task ranges i s)) = Suc (length (told s))"
    and "length (trial_results (bayes_body env opt task ranges i s))
           \<le> Suc (length (trial_results s))"
    and "snd (suggest_all opt (told s) ranges []) = None \<Longrightarrow>
         length (trial_results (bayes_body env opt task ranges i s))
           = Suc (length (trial_results s))"
  using assms
  by (auto simp: bayes_body_def Let_def split: prod.splits option.splits)

lemma bayes_fold_unknown:
  assumes "\<And>ps. objective_function env task ps = NegInf"
  shows "b_best_value s = NegInf \<Longrightarrow> b_best_params s = None \<Longrightarrow>
     list_all (\<lambda>(tp, v). v = NegInf) (told s) \<Longrightarrow>
     list_all (\<lambda>(i, tp, v). v = NegInf) (trial_results s) \<Longrightarrow>
     b_best_value (fold (bayes_body env opt task ranges) is s) = NegInf
     \<and> b_best_params (fold (bayes_body env opt task ranges) is s) = None
     \<and> list_all (\<lambda>(tp, v). v = NegInf) (told (fold (bayes_body env opt task ranges) is s))
     \<and> list_all (\<lambda>(i, tp, v). v = NegInf)
         (trial_results (fold (bayes_body env opt task ranges) is s))
     \<and> length (told (fold (bayes_body env opt task ranges) is s))
         = length (told s) + length is
     \<and> length (trial_results (fold (bayes_body env opt task ranges) is s))
         \<le> length (trial_results s) + length is
     \<and> ((\<forall>study. snd (suggest_all opt study ranges []) = None) \<longrightarrow>
          length (trial_results (fold (bayes_body env opt task ranges) is s))
            = length (trial_results s) + length is)"
proof (induction "is" arbitrary: s)
  case Nil
  then show ?case by simp
next
  case (Cons i "is")
  note b = bayes_body_unknown[of env task s opt ranges i, OF assms Cons.prems]
  from Cons.IH[OF b(1) b(2) b(3) b(4)] b(5) b(6) b(7) show ?case
    by (auto simp: le_Suc_eq)
qed

text \<open>
  C2, as the code has it. A backtest of a strategy that is not in the registry raises
  nothing to its caller: \<^verbatim>\<open>run_backtest\<close> catches its own error and returns a failure
  record. The Bayesian engine turns that failure into the value \<open>-inf\<close> of the trial and
  goes on through its whole trial budget: every trial is told to the study, with \<open>-inf\<close>;
  every trial whose parameters could be suggested is recorded in \<^verbatim>\<open>trial_results\<close>, with
  \<open>-inf\<close> (all of them when no suggestion raises); and the best value stays \<open>-inf\<close>, with no
  best parameters.
\<close>

theorem unknown_strategy_is_a_failed_trial:
  assumes "map_of load_strategies (st_strategy_name task) = None"
  shows "run_backtest env (backtest_call task ps)
           = Failure (''Estrategia no encontrada: '' @ st_strategy_name task)
       \<and> objective_function env task trial_params = NegInf
       \<and> length (told (by_state (bayesian_optimization env opt task ranges n_trials)))
           = n_trials
       \<and> list_all (\<lambda>(trial_params, v). v = NegInf)
           (told (by_state (bayesian_optimization env opt task ranges n_trials)))
       \<and> length (trial_results (by_state (bayesian_optimization env opt task ranges n_trials)))
           \<le> n_trials
       \<and> ((\<forall>study. snd (suggest_all opt study ranges []) = None) \<longrightarrow>
            length (trial_results (by_state (bayesian_optimization env opt task ranges n_trials)))
              = n_trials)
       \<and> list_all (\<lambda>(i, trial_params, v). v = NegInf)
           (trial_results (by_state (bayesian_optimization env opt task ranges n_trials)))
       \<and> b_best_value (by_state (bayesian_optimization env opt task ranges n_trials)) = NegInf
       \<and> b_best_params (by_state (bayesian_optimization env opt task ranges n_trials)) = None"
proof -
  have rb: "\<And>ps. run_backtest env (backtest_call task ps)
           = Failure (''Estrategia no encontrada: '' @ st_strategy_name task)"
    using assms by (simp add: run_backtest_def run_backtest_try_def backtest_call_def)
  then have obj: "\<And>ps. objective_function env task ps = NegInf"
    by (simp add: objective_function_def)
  from bayes_fold_unknown[of env task
      "\<lparr>told = [], trial_results = [], b_best_params = None, b_best_value = NegInf\<rparr>"
      opt ranges "[0..<n_trials]", OF obj]
  show ?thesis using rb obj by (simp add: bayesian_optimization_def Let_def)
qed

theorem unknown_strategy_is_a_failed_trial_witness:
  "map_of load_strategies (st_strategy_name (test_task ''no_such_strategy'' ''sharpe_ratio'')) = None
   \<and> (\<forall>study. snd (suggest_all test_optuna study [(''rsi_period'', IntRange 5 50 None)] []) = None)
   \<and> length (trial_results (by_state (bayesian_optimization test_env test_optuna
         (test_task ''no_such_strategy'' ''sharpe_ratio'')
         [(''rsi_period'', IntRange 5 50 None)] 3))) = 3
   \<and> b_best_value (by_state (bayesian_optimization test_env test_optuna
         (test_task ''no_such_strategy'' ''sharpe_ratio'')
         [(''rsi_period'', IntRange 5 50 None)] 3)) = NegInf"
proof -
  have a: "map_of load_strategies
             (st_strategy_name (test_task ''no_such_strategy'' ''sharpe_ratio'')) = None"
    by (simp add: test_task_def load_strategies_def)
  have b: "\<forall>study. snd (suggest_all test_optuna study [(''rsi_period'', IntRange 5 50 None)] [])
             = None"
    by (simp add: suggest_param_def test_optuna_def)
  from unknown_strategy_is_a_failed_trial[OF a, of test_env "Some []" "[]" test_optuna
      "[(''rsi_period'', IntRange 5 50 None)]" 3] a b
  show ?thesis by blast
qed

text \<open>
  The claim as the specification states it (the unknown strategy aborts the session and
  is never turned into a per-trial value) fails: two trials, both completed, both \<open>-inf\<close>.
\<close>

theorem unknown_strategy_counterexample:
  "run_backtest test_env (backtest_call (test_task ''no_such_strategy'' ''sharpe_ratio'') (Some []))
      = Failure ''Estrategia no encontrada: no_such_strategy''
   \<and> trial_results (by_state (bayesian_optimization test_env test_optuna
         (test_task ''no_such_strategy'' ''sharpe_ratio'') [(''rsi_period'', IntRange 5 50 None)] 2))
      = [(1, [(''rsi_period'', 5)], NegInf), (2, [(''rsi_period'', 5)], NegInf)]"
  by (simp add: run_backtest_def run_backtest_try_def backtest_call_def test_task_def
      load_strategies_def bayesian_optimization_def Let_def upt_conv_Cons bayes_body_def
      objective_function_def suggest_param_def test_optuna_def)

lemma malformed_domain_records_nothing:
  "trial_results (by_state (bayesian_optimization test_env test_optuna
         (test_task ''no_such_strategy'' ''sharpe_ratio'') [(''rsi_period'', IntRange 5 3 None)] 2))
      = []
   \<and> told (by_state (bayesian_optimization test_env test_optuna
         (test_task ''no_such_strategy'' ''sharpe_ratio'') [(''rsi_period'', IntRange 5 3 None)] 2))
      = [([], NegInf), ([], NegInf)]"
  by (simp add: bayesian_optimization_def Let_def upt_conv_Cons bayes_body_def
      suggest_param_def test_optuna_def)

subsection \<open>The order on scores\<close>

lemma fge_refl [simp]: "fge a a" by (simp add: fge_def)

lemma fgt_trans: "fgt a b \<Longrightarrow> fgt b c \<Longrightarrow> fgt a c"
  by (cases a; cases b; cases c) simp_all

lemma fgt_irrefl [simp]: "\<not> fgt a a" by (cases a) simp_all

lemma fgt_asym: "fgt a b \<Longrightarrow> \<not> fgt b a"
  by (cases a; cases b) simp_all

lemma fgt_total: "fgt a b \<or> a = b \<or> fgt b a"
  by (cases a; cases b) auto

lemma fge_trans: "fge a b \<Longrightarrow> fge b c \<Longrightarrow> fge a c"
  unfolding fge_def using fgt_trans by blast

lemma fge_antisym: "fge a b \<Longrightarrow> fge b a \<Longrightarrow> a = b"
  unfolding fge_def using fgt_asym by blast

lemma not_fgt: "\<not> fgt a b \<Longrightarrow> fge b a"
  unfolding fge_def using fgt_total by blast

lemma fgt_fge: "fgt a b \<Longrightarrow> fge a b" by (simp add: fge_def)

lemma fge_fgt_trans: "fge a b \<Longrightarrow> fgt b c \<Longrightarrow> fgt a c"
  by (auto simp: fge_def intro: fgt_trans)

lemma fge_NegInf [simp]: "fge a NegInf"
  by (cases a) (simp_all add: fge_def)

text \<open>Unfolding a backtest on the reference market.\<close>

lemmas eval_defs = run_backtest_def run_backtest_try_def backtest_call_def test_task_def
  test_env_def test_lib_def table_series_def bars_def load_strategies_def cfg_def
  execute_strategy_def execute_strategy_try_def execute_rsi_strategy_def for_bars_def
  Let_def upt_conv_Cons
  rsi_body_def init_state_def nan_lt_def nan_gt_def append_equity_def open_position_def
  close_position_def calculate_metrics_def metrics_get_def fitness_of_def

subsection \<open>Grid search\<close>

lemma int_le_div_iff:
  assumes "0 < (b::int)"
  shows "k \<le> a div b \<longleftrightarrow> k * b \<le> a"
proof
  assume "k \<le> a div b"
  then have "k * b \<le> (a div b) * b" using assms by (simp add: mult_right_mono)
  also have "\<dots> = a - a mod b" by (simp add: minus_mod_eq_div_mult)
  also have "\<dots> \<le> a" using assms by simp
  finally show "k * b \<le> a" .
next
  assume "k * b \<le> a"
  then have "(k * b) div b \<le> a div b" using assms by (rule zdiv_mono1)
  then show "k \<le> a div b" using assms by simp
qed

lemma py_range_inclusive:
  assumes "0 < step"
  shows "\<exists>vs. py_range lo (hi + 1) step = Inr vs \<and> distinct vs
           \<and> set vs = {lo + int k * step | k. lo + int k * step \<le> hi}"
proof -
  let ?n = "nat ((hi + 1 - lo + step - 1) div step)"
  let ?vs = "map (\<lambda>k. lo + int k * step) [0..<?n]"
  have eq: "py_range lo (hi + 1) step = Inr ?vs" using assms by (simp add: py_range_def)
  have inj: "inj_on (\<lambda>k. lo + int k * step) (set [0..<?n])"
    using assms by (auto simp: inj_on_def)
  have d: "distinct ?vs" using inj by (simp add: distinct_map)
  have mem: "k < ?n \<longleftrightarrow> lo + int k * step \<le> hi" for k :: nat
  proof -
    have e: "hi + 1 - lo + step - 1 = (hi - lo) + step" by simp
    have "step \<noteq> 0" using assms by simp
    then have "((hi - lo) + step) div step = (hi - lo) div step + 1"
      by (rule div_add_self2)
    then have "(hi + 1 - lo + step - 1) div step = (hi - lo) div step + 1"
      unfolding e .
    then have "k < ?n \<longleftrightarrow> int k < (hi - lo) div step + 1" by (simp add: nat_less_iff zless_nat_eq_int_zless)
    also have "\<dots> \<longleftrightarrow> int k \<le> (hi - lo) div step" by simp
    also have "\<dots> \<longleftrightarrow> int k * step \<le> hi - lo" using assms by (rule int_le_div_iff)
    finally show ?thesis by (simp add: algebra_simps)
  qed
  have s: "set ?vs = {lo + int k * step | k. lo + int k * step \<le> hi}"
    using mem by auto
  from eq d s show ?thesis by blast
qed

lemma grid_values_int:
  assumes "case st of None \<Rightarrow> True | Some k \<Rightarrow> 0 < k"
  shows "\<exists>vs. grid_values (IntRange lo hi st) = Inr vs \<and> distinct vs
           \<and> set vs = declared_values (IntRange lo hi st)"
proof -
  let ?step = "case st of None \<Rightarrow> 1 | Some k \<Rightarrow> k"
  from assms have "0 < ?step" by (cases st) simp_all
  from py_range_inclusive[OF this, of lo hi] obtain ws where
    ws: "py_range lo (hi + 1) ?step = Inr ws" "distinct ws"
        "set ws = {lo + int k * ?step | k. lo + int k * ?step \<le> hi}"
    by blast
  have "grid_values (IntRange lo hi st) = Inr (map real_of_int ws)"
    using ws(1) by (simp add: grid_values_def)
  moreover have "distinct (map real_of_int ws)"
    using ws(2) by (simp add: distinct_map inj_on_def)
  moreover have "set (map real_of_int ws) = declared_values (IntRange lo hi st)"
    unfolding declared_values_def set_map ws(3) param_range.case by blast
  ultimately show ?thesis by blast
qed

lemma all_values_int:
  "int_domain parameter_ranges \<Longrightarrow>
   \<exists>vss. all_values parameter_ranges = Inr vss
     \<and> list_all2 (\<lambda>vs (param_name, r). distinct vs \<and> set vs = declared_values r)
          vss parameter_ranges"
proof (induction parameter_ranges)
  case Nil
  then show ?case by simp
next
  case (Cons nr rest)
  obtain param_name r where nr: "nr = (param_name, r)" by (cases nr)
  from Cons.prems nr obtain lo hi st where r: "r = IntRange lo hi st"
    and st: "case st of None \<Rightarrow> True | Some k \<Rightarrow> 0 < k"
    by (cases r) (auto simp: int_domain_def)
  from Cons.prems have "int_domain rest" by (simp add: int_domain_def)
  from Cons.IH[OF this] obtain vss where
    vss: "all_values rest = Inr vss"
         "list_all2 (\<lambda>vs (param_name, r). distinct vs \<and> set vs = declared_values r) vss rest"
    by blast
  from grid_values_int[OF st, of lo hi] obtain vs where
    vs: "grid_values r = Inr vs" "distinct vs" "set vs = declared_values r"
    unfolding r by blast
  show ?case using vss vs nr by simp
qed

lemma itertools_product_eq: "itertools_product xss = product_lists xss"
  by (induction xss) simp_all

lemma zip_names_inj:
  "inj_on (zip names) {vs. length vs = length names}"
  by (auto simp: inj_on_def dest: arg_cong[where f="map snd"])

lemma prod_lengths:
  "list_all2 (\<lambda>vs (param_name, r). distinct vs \<and> set vs = declared_values r) vss rs \<Longrightarrow>
   foldr (*) (map length vss) 1 = prod_list (map (\<lambda>(param_name, r). card (declared_values r)) rs)"
proof (induction vss rs rule: list_all2_induct)
  case Nil
  then show ?case by simp
next
  case (Cons vs vss nr rs)
  obtain param_name r where nr: "nr = (param_name, r)" by (cases nr)
  from Cons.hyps(1) nr have "distinct vs" "set vs = declared_values r" by simp_all
  then have "length vs = card (declared_values r)" by (metis distinct_card)
  with Cons.IH nr show ?case by simp
qed

lemma all_distinct:
  "list_all2 (\<lambda>vs (param_name, r). distinct vs \<and> set vs = declared_values r) vss rs \<Longrightarrow>
   \<forall>vs \<in> set vss. distinct vs"
  by (induction vss rs rule: list_all2_induct) auto

lemma product_members:
  "list_all2 (\<lambda>vs (param_name, r). distinct vs \<and> set vs = declared_values r) vss rs \<Longrightarrow>
   list_all2 (\<lambda>v vs. v \<in> set vs) xs vss
     \<longleftrightarrow> list_all2 (\<lambda>v (param_name, r). v \<in> declared_values r) xs rs"
proof (induction vss rs arbitrary: xs rule: list_all2_induct)
  case Nil
  then show ?case by simp
next
  case (Cons vs vss nr rs)
  then show ?case by (cases xs) auto
qed

lemma sweep_body_step:
  assumes "bt (backtest_call task (Some c)) w = (out, w1)"
  shows "\<exists>s'. sweep_body bt task c (s, w) = (s', w1)
           \<and> results s' = results s @ recorded task (c, out)
           \<and> (best_of_results s \<longrightarrow> best_of_results s')"
proof (cases out)
  case (Failure msg)
  with assms show ?thesis by (simp add: sweep_body_def recorded_def)
next
  case (Success r)
  let ?m = "r_metrics r"
  let ?v = "metrics_get ?m (st_objective task) (Fin 0)"
  let ?s2 = "s\<lparr>results := results s @ [(c, ?v, ?m)]\<rparr>"
  show ?thesis
  proof (cases "fgt ?v (best_value s)")
    case True
    let ?s' = "?s2\<lparr>best_value := ?v, best_params := Some c\<rparr>"
    have eq: "sweep_body bt task c (s, w) = (?s', w1)"
      using assms Success True by (simp add: sweep_body_def Let_def)
    have res: "results ?s' = results s @ recorded task (c, out)"
      using Success by (simp add: recorded_def)
    have inv: "best_of_results s \<longrightarrow> best_of_results ?s'"
      using True unfolding best_of_results_def list_all_iff list_ex_iff
      by (auto intro: fge_trans fgt_fge)
    from eq res inv show ?thesis by blast
  next
    case False
    have eq: "sweep_body bt task c (s, w) = (?s2, w1)"
      using assms Success False by (simp add: sweep_body_def Let_def)
    have res: "results ?s2 = results s @ recorded task (c, out)"
      using Success by (simp add: recorded_def)
    have inv: "best_of_results s \<longrightarrow> best_of_results ?s2"
      using False unfolding best_of_results_def list_all_iff list_ex_iff
      by (auto dest: not_fgt)
    from eq res inv show ?thesis by blast
  qed
qed

lemma sweep_fold:
  assumes "run_calls bt (map (\<lambda>c. backtest_call task (Some c)) cs) w = (outs, w1)"
  shows "\<exists>s'. fold (sweep_body bt task) cs (s, w) = (s', w1)
           \<and> results s' = results s @ concat (map (recorded task) (zip cs outs))
           \<and> (best_of_results s \<longrightarrow> best_of_results s')"
  using assms
proof (induction cs arbitrary: s w outs)
  case Nil
  then show ?case by simp
next
  case (Cons c cs)
  obtain out wa where o: "bt (backtest_call task (Some c)) w = (out, wa)"
    by (cases "bt (backtest_call task (Some c)) w")
  from Cons.prems o obtain rest where
    r: "run_calls bt (map (\<lambda>c. backtest_call task (Some c)) cs) wa = (rest, w1)"
    and outs: "outs = out # rest"
    by (auto split: prod.splits)
  from sweep_body_step[where bt=bt and task=task and c=c and w=w and out=out and s=s, OF o]
  obtain sa where
    sa: "sweep_body bt task c (s, w) = (sa, wa)"
        "results sa = results s @ recorded task (c, out)"
        "best_of_results s \<longrightarrow> best_of_results sa"
    by blast
  from Cons.IH[OF r, of sa] obtain s' where
    s': "fold (sweep_body bt task) cs (sa, wa) = (s', w1)"
        "results s' = results sa @ concat (map (recorded task) (zip cs rest))"
        "best_of_results sa \<longrightarrow> best_of_results s'"
    by blast
  show ?case using sa s' outs by simp
qed

lemma run_calls_length: "run_calls bt cs w = (outs, w1) \<Longrightarrow> length outs = length cs"
  by (induction cs arbitrary: w outs) (auto split: prod.splits)

text \<open>
  C6, as the code has it. For a domain of int parameters with positive steps, the
  generated combinations are exactly the Cartesian product of the declared grids, each
  once, so their number is the product of the grid sizes. The loop of
  \<^verbatim>\<open>_parameter_sweep\<close> makes on its backtesting service exactly one call for each of them,
  in generation order (for the first 1000 when there are more), records the answer of each
  successful one, and tracks the best of the recorded values. After the loop the code
  makes one more call, for the best parameters found (for no parameters when no backtest
  succeeded). The domain \<open>{a: int 1..3, b: int 1..2}\<close> yields the six combinations of the
  example, in order.
\<close>

theorem grid_search_exhaustive:
  "(int_domain parameter_ranges \<longrightarrow>
      (\<exists>combos cs outs w1 sw w2.
         generate_parameter_combinations parameter_ranges = Inr combos
         \<and> set combos = {zip (map fst parameter_ranges) vs | vs.
               list_all2 (\<lambda>v (param_name, r). v \<in> declared_values r) vs parameter_ranges}
         \<and> distinct combos
         \<and> length combos
             = prod_list (map (\<lambda>(param_name, r). card (declared_values r)) parameter_ranges)
         \<and> cs = (if 1000 < length combos then take 1000 combos else combos)
         \<and> run_calls bt (map (\<lambda>c. backtest_call task (Some c)) cs) w = (outs, w1)
         \<and> length outs = length cs
         \<and> parameter_sweep bt task parameter_ranges w = Inr (sw, w2)
         \<and> results (sw_state sw) = concat (map (recorded task) (zip cs outs))
         \<and> best_of_results (sw_state sw)
         \<and> sw_total_combinations sw = length cs
         \<and> bt (backtest_call task (best_params (sw_state sw))) w1
             = (sw_final_backtest sw, w2)))
   \<and> generate_parameter_combinations [(''a'', IntRange 1 3 None), (''b'', IntRange 1 2 None)]
       = Inr [[(''a'', 1), (''b'', 1)], [(''a'', 1), (''b'', 2)],
              [(''a'', 2), (''b'', 1)], [(''a'', 2), (''b'', 2)],
              [(''a'', 3), (''b'', 1)], [(''a'', 3), (''b'', 2)]]"
proof (intro conjI impI)
  assume dom: "int_domain parameter_ranges"
  let ?names = "map fst parameter_ranges"
  from all_values_int[OF dom] obtain vss where
    av: "all_values parameter_ranges = Inr vss"
    and rel: "list_all2 (\<lambda>vs (param_name, r). distinct vs \<and> set vs = declared_values r)
                vss parameter_ranges"
    by blast
  define combos where "combos = map (zip ?names) (product_lists vss)"
  have gen: "generate_parameter_combinations parameter_ranges = Inr combos"
    using av
    by (simp add: generate_parameter_combinations_def Let_def itertools_product_eq combos_def)
  have len_vss: "length vss = length parameter_ranges"
    using rel by (rule list_all2_lengthD)
  have sub: "set (product_lists vss) \<subseteq> {vs. length vs = length ?names}"
    using in_set_product_lists_length[of _ vss] len_vss by auto
  have "\<forall>vs \<in> set vss. distinct vs"
    using rel by (rule all_distinct)
  then have "distinct (product_lists vss)" by (rule distinct_product_lists)
  then have dist: "distinct combos"
    using inj_on_subset[OF zip_names_inj sub] by (simp add: distinct_map combos_def)
  have mem: "set combos = {zip ?names vs | vs.
               list_all2 (\<lambda>v (param_name, r). v \<in> declared_values r) vs parameter_ranges}"
    using product_members[OF rel] by (auto simp: product_lists_set combos_def)
  have len: "length combos
     = prod_list (map (\<lambda>(param_name, r). card (declared_values r)) parameter_ranges)"
    using prod_lengths[OF rel] by (simp add: length_product_lists combos_def)
  define cs where "cs = (if 1000 < length combos then take 1000 combos else combos)"
  obtain outs w1 where
    calls: "run_calls bt (map (\<lambda>c. backtest_call task (Some c)) cs) w = (outs, w1)"
    by (cases "run_calls bt (map (\<lambda>c. backtest_call task (Some c)) cs) w")
  from run_calls_length[where bt=bt, OF calls] have louts: "length outs = length cs" by simp
  have init: "best_of_results \<lparr>results = [], best_params = None, best_value = NegInf\<rparr>"
    by (simp add: best_of_results_def)
  from sweep_fold[where bt=bt and task=task and cs=cs and w=w
      and s="\<lparr>results = [], best_params = None, best_value = NegInf\<rparr>", OF calls] init
  obtain s where
    s: "fold (sweep_body bt task) cs
          (\<lparr>results = [], best_params = None, best_value = NegInf\<rparr>, w) = (s, w1)"
       "results s = concat (map (recorded task) (zip cs outs))"
       "best_of_results s"
    by auto
  obtain final w2 where fin: "bt (backtest_call task (best_params s)) w1 = (final, w2)"
    by (cases "bt (backtest_call task (best_params s)) w1")
  define sw where "sw = \<lparr>sw_state = s, sw_total_combinations = length cs,
                         sw_final_backtest = final\<rparr>"
  have run: "parameter_sweep bt task parameter_ranges w = Inr (sw, w2)"
    using gen s(1) fin by (simp add: parameter_sweep_def Let_def sw_def cs_def)
  have r1: "results (sw_state sw) = concat (map (recorded task) (zip cs outs))"
    and r2: "best_of_results (sw_state sw)"
    and r3: "sw_total_combinations sw = length cs"
    and r4: "bt (backtest_call task (best_params (sw_state sw))) w1 = (sw_final_backtest sw, w2)"
    using s fin by (simp_all add: sw_def)
  from gen mem dist len cs_def calls louts run r1 r2 r3 r4
  show "\<exists>combos cs outs w1 sw w2.
         generate_parameter_combinations parameter_ranges = Inr combos
         \<and> set combos = {zip (map fst parameter_ranges) vs | vs.
               list_all2 (\<lambda>v (param_name, r). v \<in> declared_values r) vs parameter_ranges}
         \<and> distinct combos
         \<and> length combos
             = prod_list (map (\<lambda>(param_name, r). card (declared_values r)) parameter_ranges)
         \<and> cs = (if 1000 < length combos then take 1000 combos else combos)
         \<and> run_calls bt (map (\<lambda>c. backtest_call task (Some c)) cs) w = (outs, w1)
         \<and> length outs = length cs
         \<and> parameter_sweep bt task parameter_ranges w = Inr (sw, w2)
         \<and> results (sw_state sw) = concat (map (recorded task) (zip cs outs))
         \<and> best_of_results (sw_state sw)
         \<and> sw_total_combinations sw = length cs
         \<and> bt (backtest_call task (best_params (sw_state sw))) w1
             = (sw_final_backtest sw, w2)"
    by blast
next
  show "generate_parameter_combinations [(''a'', IntRange 1 3 None), (''b'', IntRange 1 2 None)]
       = Inr [[(''a'', 1), (''b'', 1)], [(''a'', 1), (''b'', 2)],
              [(''a'', 2), (''b'', 1)], [(''a'', 2), (''b'', 2)],
              [(''a'', 3), (''b'', 1)], [(''a'', 3), (''b'', 2)]]"
    by (simp add: generate_parameter_combinations_def grid_values_def py_range_def upt_conv_Cons)
qed

lemma journal_calls:
  "run_calls (journal_service env) cs journal = (map (run_backtest env) cs, journal @ cs)"
  by (induction cs arbitrary: journal) (simp_all add: journal_service_def)

lemma ab_backtest_succeeds:
  "\<exists>r. run_backtest test_env
          (backtest_call (test_task ''rsi_strategy'' ''total_return'') (Some [(''a'', x), (''b'', y)]))
        = Success r"
  by (simp add: eval_defs)

lemma ab_recorded:
  "map fst (recorded (test_task ''rsi_strategy'' ''total_return'')
      ([(''a'', x), (''b'', y)],
       run_backtest test_env
         (backtest_call (test_task ''rsi_strategy'' ''total_return'')
            (Some [(''a'', x), (''b'', y)]))))
   = [[(''a'', x), (''b'', y)]]"
proof -
  from ab_backtest_succeeds[of x y] obtain r where
    "run_backtest test_env
       (backtest_call (test_task ''rsi_strategy'' ''total_return'') (Some [(''a'', x), (''b'', y)]))
     = Success r" by blast
  then show ?thesis by (simp add: recorded_def)
qed

theorem grid_search_exhaustive_witness:
  "int_domain ab_ranges
   \<and> (\<exists>sw journal.
         parameter_sweep (journal_service test_env) (test_task ''rsi_strategy'' ''total_return'')
           ab_ranges [] = Inr (sw, journal)
         \<and> journal
             = map (\<lambda>c. backtest_call (test_task ''rsi_strategy'' ''total_return'') (Some c))
                 ab_combinations
               @ [backtest_call (test_task ''rsi_strategy'' ''total_return'')
                    (best_params (sw_state sw))]
         \<and> map fst (results (sw_state sw)) = ab_combinations)"
proof -
  let ?task = "test_task ''rsi_strategy'' ''total_return''"
  let ?bt = "journal_service test_env"
  have d: "int_domain ab_ranges" by (simp add: int_domain_def ab_ranges_def)
  note g = grid_search_exhaustive[where parameter_ranges=ab_ranges and bt="?bt"
             and task="?task" and w="[]"]
  from g d obtain combos cs outs w1 sw w2 where
    c: "generate_parameter_combinations ab_ranges = Inr combos"
    and cs: "cs = (if 1000 < length combos then take 1000 combos else combos)"
    and calls: "run_calls ?bt (map (\<lambda>c. backtest_call ?task (Some c)) cs) [] = (outs, w1)"
    and sw: "parameter_sweep ?bt ?task ab_ranges [] = Inr (sw, w2)"
    and res: "results (sw_state sw) = concat (map (recorded ?task) (zip cs outs))"
    and fin: "?bt (backtest_call ?task (best_params (sw_state sw))) w1
                = (sw_final_backtest sw, w2)"
    by blast
  from g have "generate_parameter_combinations ab_ranges = Inr ab_combinations"
    by (simp add: ab_ranges_def ab_combinations_def)
  with c have ceq: "combos = ab_combinations" by simp
  then have cseq: "cs = ab_combinations" using cs by (simp add: ab_combinations_def)
  from calls have outs: "outs = map (run_backtest test_env)
                                  (map (\<lambda>c. backtest_call ?task (Some c)) ab_combinations)"
    and w1: "w1 = map (\<lambda>c. backtest_call ?task (Some c)) ab_combinations"
    unfolding cseq journal_calls by auto
  from fin have w2: "w2 = w1 @ [backtest_call ?task (best_params (sw_state sw))]"
    by (simp add: journal_service_def)
  have "map fst (results (sw_state sw)) = ab_combinations"
    unfolding res cseq outs
    by (simp add: ab_combinations_def ab_recorded)
  with d sw w1 w2 show ?thesis by blast
qed

lemma ab_backtest_value:
  "\<exists>r. run_backtest test_env
          (backtest_call (test_task ''rsi_strategy'' ''total_return'') (Some [(''a'', x), (''b'', y)]))
        = Success r
      \<and> metrics_get (r_metrics r) ''total_return'' (Fin 0) = Fin (475 / 9)"
  by (simp add: eval_defs)

lemma ab_sweep_step:
  "\<exists>m. sweep_body (journal_service test_env) (test_task ''rsi_strategy'' ''total_return'')
         [(''a'', x), (''b'', y)] (s, journal)
       = ((if fgt (Fin (475 / 9)) (best_value s)
           then s\<lparr>results := results s @ [([(''a'', x), (''b'', y)], Fin (475 / 9), m)],
                   best_value := Fin (475 / 9), best_params := Some [(''a'', x), (''b'', y)]\<rparr>
           else s\<lparr>results := results s @ [([(''a'', x), (''b'', y)], Fin (475 / 9), m)]\<rparr>),
          journal @ [backtest_call (test_task ''rsi_strategy'' ''total_return'')
                       (Some [(''a'', x), (''b'', y)])])"
proof -
  from ab_backtest_value[of x y] obtain r where
    r: "run_backtest test_env
          (backtest_call (test_task ''rsi_strategy'' ''total_return'') (Some [(''a'', x), (''b'', y)]))
        = Success r"
    and v: "metrics_get (r_metrics r) ''total_return'' (Fin 0) = Fin (475 / 9)" by blast
  have o: "st_objective (test_task ''rsi_strategy'' ''total_return'') = ''total_return''"
    by (simp add: test_task_def)
  show ?thesis
    by (rule exI[of _ "r_metrics r"]) (simp add: sweep_body_def journal_service_def r v o Let_def)
qed

lemma ab_best_after:
  assumes "best_params s = Some [(''a'', 1), (''b'', 1)]" and "best_value s = Fin (475 / 9)"
  shows "\<exists>s'. sweep_body (journal_service test_env) (test_task ''rsi_strategy'' ''total_return'')
         [(''a'', x), (''b'', y)] (s, journal)
       = (s', journal @ [backtest_call (test_task ''rsi_strategy'' ''total_return'')
                       (Some [(''a'', x), (''b'', y)])])
      \<and> best_params s' = Some [(''a'', 1), (''b'', 1)] \<and> best_value s' = Fin (475 / 9)"
  using ab_sweep_step[of x y s journal] assms by auto

text \<open>
  The claim as the specification states it (grid search evaluates each combination exactly
  once) fails: on the example's domain the backtesting service receives seven calls, the
  combination \<open>(1, 1)\<close> twice, the second time after the loop.
\<close>

theorem grid_search_exhaustive_counterexample:
  "map_sum id snd
     (parameter_sweep (journal_service test_env) (test_task ''rsi_strategy'' ''total_return'')
        [(''a'', IntRange 1 3 None), (''b'', IntRange 1 2 None)] [])
   = Inr [backtest_call (test_task ''rsi_strategy'' ''total_return'') (Some [(''a'', 1), (''b'', 1)]),
          backtest_call (test_task ''rsi_strategy'' ''total_return'') (Some [(''a'', 1), (''b'', 2)]),
          backtest_call (test_task ''rsi_strategy'' ''total_return'') (Some [(''a'', 2), (''b'', 1)]),
          backtest_call (test_task ''rsi_strategy'' ''total_return'') (Some [(''a'', 2), (''b'', 2)]),
          backtest_call (test_task ''rsi_strategy'' ''total_return'') (Some [(''a'', 3), (''b'', 1)]),
          backtest_call (test_task ''rsi_strategy'' ''total_return'') (Some [(''a'', 3), (''b'', 2)]),
          backtest_call (test_task ''rsi_strategy'' ''total_return'') (Some [(''a'', 1), (''b'', 1)])]"
proof -
  let ?T = "test_task ''rsi_strategy'' ''total_return''"
  let ?bt = "journal_service test_env"
  let ?call = "\<lambda>c. backtest_call ?T (Some c)"
  have gen: "generate_parameter_combinations [(''a'', IntRange 1 3 None), (''b'', IntRange 1 2 None)]
       = Inr ab_combinations"
    by (simp add: generate_parameter_combinations_def grid_values_def py_range_def upt_conv_Cons
          ab_combinations_def)
  from ab_sweep_step[of 1 1 "\<lparr>results = [], best_params = None, best_value = NegInf\<rparr>" "[]"]
  obtain s1 where
    s1: "sweep_body ?bt ?T [(''a'', 1), (''b'', 1)]
           (\<lparr>results = [], best_params = None, best_value = NegInf\<rparr>, []) = (s1, [?call [(''a'', 1), (''b'', 1)]])"
    and b1: "best_params s1 = Some [(''a'', 1), (''b'', 1)]" "best_value s1 = Fin (475 / 9)"
    by auto
  from ab_best_after[OF b1, of 1 2 "[?call [(''a'', 1), (''b'', 1)]]"] obtain s2 where
    s2: "sweep_body ?bt ?T [(''a'', 1), (''b'', 2)] (s1, [?call [(''a'', 1), (''b'', 1)]])
          = (s2, [?call [(''a'', 1), (''b'', 1)], ?call [(''a'', 1), (''b'', 2)]])"
    and b2: "best_params s2 = Some [(''a'', 1), (''b'', 1)]" "best_value s2 = Fin (475 / 9)"
    by auto
  from ab_best_after[OF b2, of 2 1] obtain s3 where
    s3: "sweep_body ?bt ?T [(''a'', 2), (''b'', 1)]
           (s2, [?call [(''a'', 1), (''b'', 1)], ?call [(''a'', 1), (''b'', 2)]])
          = (s3, [?call [(''a'', 1), (''b'', 1)], ?call [(''a'', 1), (''b'', 2)],
                  ?call [(''a'', 2), (''b'', 1)]])"
    and b3: "best_params s3 = Some [(''a'', 1), (''b'', 1)]" "best_value s3 = Fin (475 / 9)"
    by (metis append_Cons append_Nil)
  from ab_best_after[OF b3, of 2 2] obtain s4 where
    s4: "sweep_body ?bt ?T [(''a'', 2), (''b'', 2)]
           (s3, [?call [(''a'', 1), (''b'', 1)], ?call [(''a'', 1), (''b'', 2)],
                  ?call [(''a'', 2), (''b'', 1)]])
          = (s4, [?call [(''a'', 1), (''b'', 1)], ?call [(''a'', 1), (''b'', 2)],
                  ?call [(''a'', 2), (''b'', 1)], ?call [(''a'', 2), (''b'', 2)]])"
    and b4: "best_params s4 = Some [(''a'', 1), (''b'', 1)]" "best_value s4 = Fin (475 / 9)"
    by (metis append_Cons append_Nil)
  from ab_best_after[OF b4, of 3 1] obtain s5 where
    s5: "sweep_body ?bt ?T [(''a'', 3), (''b'', 1)]
           (s4, [?call [(''a'', 1), (''b'', 1)], ?call [(''a'', 1), (''b'', 2)],
                  ?call [(''a'', 2), (''b'', 1)], ?call [(''a'', 2), (''b'', 2)]])
          = (s5, [?call [(''a'', 1), (''b'', 1)], ?call [(''a'', 1), (''b'', 2)],
                  ?call [(''a'', 2), (''b'', 1)], ?call [(''a'', 2), (''b'', 2)],
                  ?call [(''a'', 3), (''b'', 1)]])"
    and b5: "best_params s5 = Some [(''a'', 1), (''b'', 1)]" "best_value s5 = Fin (475 / 9)"
    by (metis append_Cons append_Nil)
  from ab_best_after[OF b5, of 3 2] obtain s6 where
    s6: "sweep_body ?bt ?T [(''a'', 3), (''b'', 2)]
           (s5, [?call [(''a'', 1), (''b'', 1)], ?call [(''a'', 1), (''b'', 2)],
                  ?call [(''a'', 2), (''b'', 1)], ?call [(''a'', 2), (''b'', 2)],
                  ?call [(''a'', 3), (''b'', 1)]])
          = (s6, [?call [(''a'', 1), (''b'', 1)], ?call [(''a'', 1), (''b'', 2)],
                  ?call [(''a'', 2), (''b'', 1)], ?call [(''a'', 2), (''b'', 2)],
                  ?call [(''a'', 3), (''b'', 1)], ?call [(''a'', 3), (''b'', 2)]])"
    and b6: "best_params s6 = Some [(''a'', 1), (''b'', 1)]" "best_value s6 = Fin (475 / 9)"
    by (metis append_Cons append_Nil)
  show ?thesis
    by (simp add: parameter_sweep_def gen ab_combinations_def s1 s2 s3 s4 s5 s6 b6
          journal_service_def)
qed

subsection \<open>Genetic search\<close>

lemma py_max_fold:
  "fge (fold (\<lambda>y m. if fgt y m then y else m) xs x) x
   \<and> (\<forall>y \<in> set xs. fge (fold (\<lambda>y m. if fgt y m then y else m) xs x) y)
   \<and> fold (\<lambda>y m. if fgt y m then y else m) xs x \<in> insert x (set xs)"
proof (induction xs arbitrary: x)
  case Nil
  then show ?case by simp
next
  case (Cons y ys)
  let ?x' = "if fgt y x then y else x"
  have a: "fge ?x' x" "fge ?x' y" by (auto simp: fgt_fge not_fgt)
  from Cons.IH[of ?x'] a show ?case
    by (auto intro: fge_trans)
qed

lemma py_max_upper: "y \<in> set (x # xs) \<Longrightarrow> fge (py_max x xs) y"
  using py_max_fold[of xs x] by (auto simp: py_max_def)

lemma py_max_mem: "py_max x xs \<in> set (x # xs)"
  using py_max_fold[of xs x] by (auto simp: py_max_def)

lemma evaluate_fold:
  assumes "fold (evaluate_individual fit) pop (sc, bi, bf) = (sc', bi', bf')"
  shows "sc' = sc @ map fit pop \<and> fge bf' bf \<and> (\<forall>ind \<in> set pop. fge bf' (fit ind))
       \<and> ((bi' = bi \<and> bf' = bf) \<or> (\<exists>ind \<in> set pop. bi' = Some ind \<and> bf' = fit ind))"
  using assms
proof (induction pop arbitrary: sc bi bf)
  case Nil
  then show ?case by simp
next
  case (Cons ind pop)
  obtain sc1 bi1 bf1 where step: "evaluate_individual fit ind (sc, bi, bf) = (sc1, bi1, bf1)"
    by (cases "evaluate_individual fit ind (sc, bi, bf)") auto
  then have s1: "sc1 = sc @ [fit ind]" "fge bf1 bf" "fge bf1 (fit ind)"
      "(bi1 = bi \<and> bf1 = bf) \<or> (bi1 = Some ind \<and> bf1 = fit ind)"
    by (auto simp: evaluate_individual_def Let_def fgt_fge not_fgt split: if_splits)
  from Cons.prems step have "fold (evaluate_individual fit) pop (sc1, bi1, bf1) = (sc', bi', bf')"
    by simp
  from Cons.IH[OF this] s1 show ?case
    by (auto intro: fge_trans)
qed

lemma generation_body_elitist:
  assumes "generation_body np fit ranges psize gens n s = Inr s'" and "elitist fit s"
  shows "fge (best_fitness s') (best_fitness s) \<and> elitist fit s'
       \<and> length (generation_history s') = Suc (length (generation_history s))"
proof -
  obtain sc bi bf where ev: "fold (evaluate_individual fit) (population s)
        ([], best_individual s, best_fitness s) = (sc, bi, bf)"
    by (cases "fold (evaluate_individual fit) (population s) ([], best_individual s, best_fitness s)") auto
  from evaluate_fold[OF ev] have
    sc: "sc = map fit (population s)" and mono: "fge bf (best_fitness s)"
    and up: "\<forall>ind \<in> set (population s). fge bf (fit ind)"
    and tr: "(bi = best_individual s \<and> bf = best_fitness s)
             \<or> (\<exists>ind \<in> set (population s). bi = Some ind \<and> bf = fit ind)"
    by simp_all
  from assms(1) ev obtain st where st: "generation_statistics n sc = Inr st"
    by (auto simp: generation_body_def split: sum.splits)
  then obtain f fs where scn: "sc = f # fs" and gb: "gs_best_fitness st = py_max f fs"
    and some: "filter (\<lambda>f. fgt f NegInf) sc \<noteq> []"
    by (auto simp: generation_statistics_def split: list.splits)
  have s': "best_fitness s' = bf" "best_individual s' = bi"
       "generation_history s' = generation_history s @ [st]"
    using assms(1) ev st by (auto simp: generation_body_def Let_def split: sum.splits if_splits)
  have mx_in: "gs_best_fitness st \<in> set sc" using py_max_mem[of f fs] gb scn by simp
  then have bf_ge: "fge bf (gs_best_fitness st)" using up sc by auto
  from some obtain x where x: "x \<in> set sc" "fgt x NegInf"
    by (metis filter_False)
  then have "fge (gs_best_fitness st) x"
    using py_max_upper[of x f fs] gb scn by simp
  then have mxpos: "fgt (gs_best_fitness st) NegInf"
    using x(2) by (rule fge_fgt_trans)
  have old: "list_all (\<lambda>st. fge bf (gs_best_fitness st)) (generation_history s)"
    using assms(2) mono unfolding elitist_def list_all_iff by (auto intro: fge_trans)
  have new: "list_ex (\<lambda>st. gs_best_fitness st = bf) (generation_history s @ [st])
             \<and> (case bi of None \<Rightarrow> False | Some ind \<Rightarrow> fit ind = bf)"
  proof (cases "\<exists>ind \<in> set (population s). bi = Some ind \<and> bf = fit ind")
    case True
    then obtain ind where ind: "ind \<in> set (population s)" "bi = Some ind" "bf = fit ind" by blast
    then have "fit ind \<in> set sc" using sc by simp
    then have "fge (gs_best_fitness st) bf" using py_max_upper[of "fit ind" f fs] gb scn ind by simp
    with bf_ge have "gs_best_fitness st = bf" by (simp add: fge_antisym)
    with ind show ?thesis by simp
  next
    case False
    with tr have same: "bi = best_individual s" "bf = best_fitness s" by auto
    have "generation_history s \<noteq> []"
    proof
      assume "generation_history s = []"
      with assms(2) have "best_fitness s = NegInf" by (simp add: elitist_def)
      with same bf_ge mxpos show False by (cases "gs_best_fitness st") (auto simp: fge_def)
    qed
    with assms(2) same show ?thesis by (auto simp: elitist_def)
  qed
  show ?thesis using s' mono old new bf_ge by (auto simp: elitist_def split: option.splits)
qed

lemma ga_loop_elitist:
  assumes "elitist fit s0" and "generation_history s0 = []"
    and "ga_loop np fit ranges psize gens s0 n = Inr s"
  shows "elitist fit s \<and> length (generation_history s) = n"
  using assms(3)
proof (induction n arbitrary: s)
  case 0
  with assms(1,2) show ?case by simp
next
  case (Suc n)
  then obtain s1 where s1: "ga_loop np fit ranges psize gens s0 n = Inr s1"
    and b: "generation_body np fit ranges psize gens n s1 = Inr s"
    by (auto split: sum.splits)
  from Suc.IH[OF s1] generation_body_elitist[OF b] show ?case by simp
qed

lemma ga_loop_prefix:
  "ga_loop np fit ranges psize gens s0 m = Inr s \<Longrightarrow> n \<le> m \<Longrightarrow>
   \<exists>s1. ga_loop np fit ranges psize gens s0 n = Inr s1"
proof (induction m arbitrary: s)
  case 0
  then show ?case by simp
next
  case (Suc m)
  show ?case
  proof (cases "n = Suc m")
    case True
    with Suc.prems show ?thesis by blast
  next
    case False
    with Suc.prems have "n \<le> m" by simp
    moreover from Suc.prems obtain s1 where "ga_loop np fit ranges psize gens s0 m = Inr s1"
      by (auto split: sum.splits)
    ultimately show ?thesis using Suc.IH by blast
  qed
qed

lemma ga_start_elitist:
  "ga_start np ranges psize g = Inr s0 \<Longrightarrow> elitist fit s0 \<and> generation_history s0 = []"
  by (auto simp: ga_start_def elitist_def split: sum.splits prod.splits)

text \<open>
  C7 (genetic elitism). In a genetic run that returns, the tracked best fitness never
  decreases from one generation to the next; at the end it dominates the best fitness of
  every generation in the history, it is the best of one of them, and the returned best
  individual has exactly that fitness.
\<close>

theorem genetic_elitism:
  assumes "genetic_optimization env np task ranges psize gens g = Inr r"
  shows "\<exists>s0. ga_start np ranges psize g = Inr s0
      \<and> ga_loop np (fitness_of env task) ranges psize gens s0 gens = Inr (ga_final r)
      \<and> (\<forall>n < gens. \<exists>s s'.
            ga_loop np (fitness_of env task) ranges psize gens s0 n = Inr s
          \<and> ga_loop np (fitness_of env task) ranges psize gens s0 (Suc n) = Inr s'
          \<and> fge (best_fitness s') (best_fitness s))
      \<and> list_all (\<lambda>st. fge (best_fitness (ga_final r)) (gs_best_fitness st))
           (generation_history (ga_final r))
      \<and> length (generation_history (ga_final r)) = gens
      \<and> (0 < gens \<longrightarrow>
            list_ex (\<lambda>st. gs_best_fitness st = best_fitness (ga_final r))
              (generation_history (ga_final r))
          \<and> (\<exists>ind. best_individual (ga_final r) = Some ind
                \<and> fitness_of env task ind = best_fitness (ga_final r)))"
proof -
  let ?fit = "fitness_of env task"
  from assms obtain s0 where s0: "ga_start np ranges psize g = Inr s0"
    and fin: "ga_loop np ?fit ranges psize gens s0 gens = Inr (ga_final r)"
    by (auto simp: genetic_optimization_def split: sum.splits)
  note st = ga_start_elitist[OF s0, of ?fit]
  from ga_loop_elitist[OF _ _ fin] st
  have e: "elitist ?fit (ga_final r)" and l: "length (generation_history (ga_final r)) = gens"
    by simp_all
  have mono: "\<forall>n < gens. \<exists>s s'.
            ga_loop np ?fit ranges psize gens s0 n = Inr s
          \<and> ga_loop np ?fit ranges psize gens s0 (Suc n) = Inr s'
          \<and> fge (best_fitness s') (best_fitness s)"
  proof (intro allI impI)
    fix n assume n: "n < gens"
    from ga_loop_prefix[OF fin, of "Suc n"] n obtain s' where
      s': "ga_loop np ?fit ranges psize gens s0 (Suc n) = Inr s'" by auto
    then obtain s where s: "ga_loop np ?fit ranges psize gens s0 n = Inr s"
      and b: "generation_body np ?fit ranges psize gens n s = Inr s'"
      by (auto split: sum.splits)
    from ga_loop_elitist[OF _ _ s] st have "elitist ?fit s" by simp
    from generation_body_elitist[OF b this] s s'
    show "\<exists>s s'. ga_loop np ?fit ranges psize gens s0 n = Inr s
          \<and> ga_loop np ?fit ranges psize gens s0 (Suc n) = Inr s'
          \<and> fge (best_fitness s') (best_fitness s)" by blast
  qed
  have last: "0 < gens \<longrightarrow>
            list_ex (\<lambda>st. gs_best_fitness st = best_fitness (ga_final r))
              (generation_history (ga_final r))
          \<and> (\<exists>ind. best_individual (ga_final r) = Some ind
                \<and> ?fit ind = best_fitness (ga_final r))"
  proof (intro impI)
    assume "0 < gens"
    with l have "generation_history (ga_final r) \<noteq> []" by auto
    with e show "list_ex (\<lambda>st. gs_best_fitness st = best_fitness (ga_final r))
              (generation_history (ga_final r))
          \<and> (\<exists>ind. best_individual (ga_final r) = Some ind
                \<and> ?fit ind = best_fitness (ga_final r))"
      by (auto simp: elitist_def split: option.splits)
  qed
  from e have "list_all (\<lambda>st. fge (best_fitness (ga_final r)) (gs_best_fitness st))
           (generation_history (ga_final r))" by (simp add: elitist_def)
  with s0 fin mono l last show ?thesis by blast
qed

lemma fitness_of_24: "fitness_of test_env (test_task ''rsi_strategy'' ''total_return'') [(''oversold_level'', 24)] = Fin 0"
  by (simp add: eval_defs)

lemma fitness_of_26: "fitness_of test_env (test_task ''rsi_strategy'' ''total_return'') [(''oversold_level'', 26)] = Fin (475 / 9)"
  by (simp add: eval_defs)

lemma fitness_of_25: "fitness_of test_env (test_task ''rsi_strategy'' ''total_return'') [(''oversold_level'', 25)] = Fin 0"
  by (simp add: eval_defs)

lemma fitness_of_27: "fitness_of test_env (test_task ''rsi_strategy'' ''total_return'') [(''oversold_level'', 27)] = Fin (475 / 9)"
  by (simp add: eval_defs)

lemma first_population: "ga_start test_numpy ga_ranges 4 0 = Inr \<lparr>population = pop0, best_individual = None, best_fitness = NegInf,
        generation_history = [], rng = 4\<rparr>"
  by (simp add: ga_start_def eval_nat_numeral random_value_def test_numpy_def ga_ranges_def pop0_def)

lemma second_population: "next_population test_numpy ga_ranges 4 pop0 [Fin 0, Fin 0, Fin (475/9), Fin (475/9)] 4 = Inr (pop1, 16)"
  by (simp add: next_population_def make_child_def tournament_selection_def test_numpy_def pop0_def pop1_def
      upt_conv_Cons np_argmax_def Let_def crossover_def random_value_def ga_ranges_def)

lemmas fitness_values = fitness_of_24 fitness_of_25 fitness_of_26 fitness_of_27

lemma first_scores:
  "fold (evaluate_individual (fitness_of test_env ga_task)) pop0 ([], None, NegInf)
     = ([Fin 0, Fin 0, Fin (475/9), Fin (475/9)], Some [(''oversold_level'', 26)], Fin (475 / 9))"
  by (simp add: pop0_def evaluate_individual_def ga_task_def fitness_values Let_def)

lemma second_scores:
  "fold (evaluate_individual (fitness_of test_env ga_task)) pop1
       ([], Some [(''oversold_level'', 26)], Fin (475 / 9))
     = ([Fin (475/9), Fin (475/9), Fin (475/9), Fin (475/9)], Some [(''oversold_level'', 26)],
        Fin (475 / 9))"
  by (simp add: pop1_def evaluate_individual_def ga_task_def fitness_values Let_def)

lemma first_generation:
  "generation_body test_numpy (fitness_of test_env ga_task) ga_ranges 4 (Suc (Suc 0)) 0
     \<lparr>population = pop0, best_individual = None, best_fitness = NegInf,
        generation_history = [], rng = 4\<rparr>
   = Inr \<lparr>population = pop1, best_individual = Some [(''oversold_level'', 26)],
          best_fitness = Fin (475 / 9), generation_history = [stats1], rng = 16\<rparr>"
  by (simp add: generation_body_def first_scores generation_statistics_def py_max_def py_min_def
      mean_fitness_def np_mean_def second_population stats1_def)

lemma second_generation:
  "generation_body test_numpy (fitness_of test_env ga_task) ga_ranges 4 (Suc (Suc 0)) (Suc 0)
     \<lparr>population = pop1, best_individual = Some [(''oversold_level'', 26)],
          best_fitness = Fin (475 / 9), generation_history = [stats1], rng = 16\<rparr>
   = Inr \<lparr>population = pop1, best_individual = Some [(''oversold_level'', 26)],
          best_fitness = Fin (475 / 9), generation_history = [stats1, stats2], rng = 16\<rparr>"
  by (simp add: generation_body_def second_scores generation_statistics_def py_max_def py_min_def
      mean_fitness_def np_mean_def stats2_def)

lemma genetic_run_returns:
  "\<exists>r. genetic_optimization test_env test_numpy ga_task ga_ranges 4 2 0 = Inr r"
  by (simp add: genetic_optimization_def first_population numeral_2_eq_2 first_generation second_generation)

theorem genetic_elitism_witness:
  "\<exists>r. genetic_optimization test_env test_numpy ga_task ga_ranges 4 2 0 = Inr r
     \<and> length (generation_history (ga_final r)) = 2
     \<and> list_all (\<lambda>st. fge (best_fitness (ga_final r)) (gs_best_fitness st))
           (generation_history (ga_final r))"
proof -
  from genetic_run_returns obtain r where
    r: "genetic_optimization test_env test_numpy ga_task ga_ranges 4 2 0 = Inr r" by blast
  from genetic_elitism[OF r] r show ?thesis by blast
qed

section \<open>Properties of the walk-forward analysis\<close>

lemma windows_Suc:
  "windows first window_size step_size (Suc n)
     = (first, first + window_size) # windows (first + step_size) window_size step_size n"
proof -
  have "[0..<Suc n] = 0 # map Suc [0..<n]"
    by (simp add: upt_conv_Cons map_Suc_upt del: upt_Suc)
  then show ?thesis
    by (simp add: windows_def comp_def algebra_simps del: upt_Suc)
qed

lemma window_count_step:
  assumes "0 < (step_size::int)" and "current + window_size \<le> end_date"
  shows "(if current + window_size \<le> end_date
          then nat ((end_date - current - window_size) div step_size) + 1 else 0)
       = Suc (if (current + step_size) + window_size \<le> end_date
              then nat ((end_date - (current + step_size) - window_size) div step_size) + 1
              else 0)"
proof (cases "(current + step_size) + window_size \<le> end_date")
  case True
  define a where "a = end_date - (current + step_size) - window_size"
  from True have a0: "0 \<le> a" by (simp add: a_def)
  have e: "end_date - current - window_size = a + step_size" by (simp add: a_def)
  have "step_size \<noteq> 0" using assms(1) by simp
  then have "(a + step_size) div step_size = a div step_size + 1" by (rule div_add_self2)
  moreover have "0 \<le> a div step_size"
    using a0 assms(1) by (simp add: pos_imp_zdiv_nonneg_iff)
  ultimately have "nat ((a + step_size) div step_size) = nat (a div step_size) + 1"
    by (simp add: nat_add_distrib)
  then show ?thesis using True assms(2) unfolding e a_def by simp
next
  case False
  then have "end_date - current - window_size < step_size" by simp
  moreover from assms(2) have "0 \<le> end_date - current - window_size" by simp
  ultimately have "(end_date - current - window_size) div step_size = 0"
    by (simp add: div_pos_pos_trivial)
  with False assms(2) show ?thesis by simp
qed

lemma window_loop_calls:
  assumes "0 < step_size"
  shows "\<exists>outs w1.
      run_calls bt
        (map (\<lambda>(a, b). window_call task base a b)
           (windows current window_size step_size
              (if current + window_size \<le> end_date
               then nat ((end_date - current - window_size) div step_size) + 1 else 0))) w
        = (outs, w1)
    \<and> window_loop bt task base window_size step_size end_date current (rs, w)
        = Some (rs @ concat (map window_recorded
                   (zip (windows current window_size step_size
                           (if current + window_size \<le> end_date
                            then nat ((end_date - current - window_size) div step_size) + 1
                            else 0)) outs)), w1)"
proof (induction "nat (end_date - current - window_size + 1)" arbitrary: current rs w
        rule: less_induct)
  case less
  show ?case
  proof (cases "current + window_size \<le> end_date")
    case False
    then show ?thesis by (subst window_loop.simps) (simp add: windows_def)
  next
    case True
    let ?c = "current + step_size"
    let ?n = "if ?c + window_size \<le> end_date
              then nat ((end_date - ?c - window_size) div step_size) + 1 else 0"
    obtain out wa where o: "bt (window_call task base current (current + window_size)) w = (out, wa)"
      by (cases "bt (window_call task base current (current + window_size)) w")
    let ?rs = "rs @ window_recorded ((current, current + window_size), out)"
    have body: "window_body bt task base current (current + window_size) (rs, w) = (?rs, wa)"
      using o by (cases out) (simp_all add: window_body_def window_recorded_def)
    from True assms
    have "nat (end_date - ?c - window_size + 1) < nat (end_date - current - window_size + 1)"
      by simp
    from less[OF this, of wa ?rs] obtain outs w1 where
      calls: "run_calls bt (map (\<lambda>(a, b). window_call task base a b)
                (windows ?c window_size step_size ?n)) wa = (outs, w1)"
      and loop: "window_loop bt task base window_size step_size end_date ?c (?rs, wa)
        = Some (?rs @ concat (map window_recorded
                   (zip (windows ?c window_size step_size ?n) outs)), w1)"
      by blast
    have cnt: "(if current + window_size \<le> end_date
          then nat ((end_date - current - window_size) div step_size) + 1 else 0) = Suc ?n"
      using window_count_step[OF assms True] .
    have c2: "run_calls bt (map (\<lambda>(a, b). window_call task base a b)
                (windows current window_size step_size (Suc ?n))) w = (out # outs, w1)"
      using o calls by (simp add: windows_Suc)
    have l2: "window_loop bt task base window_size step_size end_date current (rs, w)
        = Some (rs @ concat (map window_recorded
                   (zip (windows current window_size step_size (Suc ?n)) (out # outs))), w1)"
      using True body loop by (subst window_loop.simps) (simp add: windows_Suc)
    show ?thesis unfolding cnt using c2 l2 by blast
  qed
qed

text \<open>
  C8 (window count). With a positive step, the walk-forward loop returns, and it has made
  on its backtesting service exactly one call for each of \<open>n\<close> windows, in order, where
  \<open>n = \<lfloor>(D - W) / S\<rfloor> + 1\<close> when the window fits (\<open>W \<le> D\<close>) and \<open>n = 0\<close> otherwise, \<open>D\<close>
  being the length of the date range in days; its results are the answers of the
  successful ones.
\<close>

theorem walk_forward_window_count:
  assumes "0 < step_size"
  shows "\<exists>n outs w1 rs.
      n = (if window_size \<le> st_end_date task - st_start_date task
           then nat ((st_end_date task - st_start_date task - window_size) div step_size) + 1
           else 0)
    \<and> run_calls bt
        (map (\<lambda>(a, b). window_call task base a b)
           (windows (st_start_date task) window_size step_size n)) w = (outs, w1)
    \<and> length outs = n
    \<and> walk_forward_analysis bt task base window_size step_size w = Some (rs, w1)
    \<and> rs = concat (map window_recorded
               (zip (windows (st_start_date task) window_size step_size n) outs))"
proof -
  let ?n = "if st_start_date task + window_size \<le> st_end_date task
            then nat ((st_end_date task - st_start_date task - window_size) div step_size) + 1
            else 0"
  have n: "?n = (if window_size \<le> st_end_date task - st_start_date task
           then nat ((st_end_date task - st_start_date task - window_size) div step_size) + 1
           else 0)"
    by (simp add: algebra_simps)
  from window_loop_calls[OF assms, where bt=bt and task=task and base=base
        and current="st_start_date task" and window_size=window_size
        and end_date="st_end_date task" and w=w and rs="[]"]
  obtain outs w1 where
    calls: "run_calls bt (map (\<lambda>(a, b). window_call task base a b)
              (windows (st_start_date task) window_size step_size ?n)) w = (outs, w1)"
    and loop: "walk_forward_analysis bt task base window_size step_size w
        = Some (concat (map window_recorded
                   (zip (windows (st_start_date task) window_size step_size ?n) outs)), w1)"
    unfolding walk_forward_analysis_def by auto
  from run_calls_length[where bt=bt, OF calls] have "length outs = ?n"
    by (simp add: windows_def)
  with calls loop show ?thesis unfolding n by blast
qed

theorem walk_forward_window_count_witness:
  "(0::int) < 30
   \<and> walk_forward_analysis counting_service (test_task ''rsi_strategy'' ''sharpe_ratio'') [] 90 30 0
       = Some ([], 10)"
proof -
  have run: "run_calls counting_service cs n = (map (\<lambda>c. Failure ''unavailable'') cs, n + length cs)"
    for cs n
    by (induction cs arbitrary: n) (simp_all add: counting_service_def)
  from walk_forward_window_count[where step_size=30 and window_size=90
      and task="test_task ''rsi_strategy'' ''sharpe_ratio''" and base="[]"
      and bt=counting_service and w=0]
  obtain n outs w1 rs where
    n: "n = 10"
    and calls: "run_calls counting_service
        (map (\<lambda>(a, b). window_call (test_task ''rsi_strategy'' ''sharpe_ratio'') [] a b)
           (windows 0 90 30 n)) 0 = (outs, w1)"
    and len: "length outs = n"
    and wf: "walk_forward_analysis counting_service (test_task ''rsi_strategy'' ''sharpe_ratio'')
               [] 90 30 0 = Some (rs, w1)"
    and rs: "rs = concat (map window_recorded (zip (windows 0 90 30 n) outs))"
    by (auto simp: test_task_def)
  from calls have w1: "w1 = 10" and outs: "outs = map (\<lambda>c. Failure ''unavailable'')
        (map (\<lambda>(a, b). window_call (test_task ''rsi_strategy'' ''sharpe_ratio'') [] a b)
           (windows 0 90 30 n))"
    unfolding run n by (simp_all add: windows_def)
  have "rs = []" unfolding rs outs
    by (simp add: window_recorded_def zip_map2 comp_def split_def)
  with wf w1 show ?thesis by simp
qed

end
